theory Spec2Isabelle
  imports Complex_Main
begin

section \<open>JavaScript numbers and argument values\<close>

text \<open>
  A JavaScript number is NaN, one of the two infinities, or a finite double. Finite
  doubles are idealised as reals: rounding, overflow to an infinity and the sign of zero
  are not modelled. The operations below follow the language's rules for NaN and the
  infinities, since the constructors of ArtCanvas.js test for NaN explicitly.
\<close>

datatype number = NaN | PInf | NInf | Fin real

fun isNaN :: "number \<Rightarrow> bool" where
  "isNaN NaN = True"
| "isNaN _ = False"

fun num_neg :: "number \<Rightarrow> number" where
  "num_neg NaN = NaN"
| "num_neg PInf = NInf"
| "num_neg NInf = PInf"
| "num_neg (Fin a) = Fin (- a)"

text \<open>\<open>a + b\<close>: the sum of opposite infinities is NaN.\<close>

fun num_add :: "number \<Rightarrow> number \<Rightarrow> number" where
  "num_add (Fin a) (Fin b) = Fin (a + b)"
| "num_add NaN _ = NaN"
| "num_add _ NaN = NaN"
| "num_add PInf NInf = NaN"
| "num_add NInf PInf = NaN"
| "num_add PInf _ = PInf"
| "num_add _ PInf = PInf"
| "num_add NInf _ = NInf"
| "num_add _ NInf = NInf"

definition num_sub :: "number \<Rightarrow> number \<Rightarrow> number" where
  "num_sub a b = num_add a (num_neg b)"

text \<open>\<open>a * b\<close>: an infinity times zero is NaN.\<close>

fun num_mul :: "number \<Rightarrow> number \<Rightarrow> number" where
  "num_mul (Fin a) (Fin b) = Fin (a * b)"
| "num_mul NaN _ = NaN"
| "num_mul _ NaN = NaN"
| "num_mul PInf (Fin b) = (if b = 0 then NaN else if 0 < b then PInf else NInf)"
| "num_mul NInf (Fin b) = (if b = 0 then NaN else if 0 < b then NInf else PInf)"
| "num_mul (Fin a) PInf = (if a = 0 then NaN else if 0 < a then PInf else NInf)"
| "num_mul (Fin a) NInf = (if a = 0 then NaN else if 0 < a then NInf else PInf)"
| "num_mul PInf PInf = PInf"
| "num_mul PInf NInf = NInf"
| "num_mul NInf PInf = NInf"
| "num_mul NInf NInf = PInf"

text \<open>\<open>a / b\<close>: a finite number over zero is an infinity of its sign, zero over zero
  and an infinity over an infinity are NaN.\<close>

fun num_div :: "number \<Rightarrow> number \<Rightarrow> number" where
  "num_div (Fin a) (Fin b) =
     (if b = 0 then (if a = 0 then NaN else if 0 < a then PInf else NInf) else Fin (a / b))"
| "num_div NaN _ = NaN"
| "num_div _ NaN = NaN"
| "num_div (Fin a) _ = Fin 0"
| "num_div PInf (Fin b) = (if 0 \<le> b then PInf else NInf)"
| "num_div NInf (Fin b) = (if 0 \<le> b then NInf else PInf)"
| "num_div _ _ = NaN"

text \<open>The relational operators: every comparison with NaN is false.\<close>

fun num_lt :: "number \<Rightarrow> number \<Rightarrow> bool" where
  "num_lt NaN _ = False"
| "num_lt _ NaN = False"
| "num_lt (Fin a) (Fin b) = (a < b)"
| "num_lt _ NInf = False"
| "num_lt NInf _ = True"
| "num_lt PInf _ = False"
| "num_lt _ PInf = True"

definition num_gt :: "number \<Rightarrow> number \<Rightarrow> bool" where
  "num_gt a b = num_lt b a"

definition num_ge :: "number \<Rightarrow> number \<Rightarrow> bool" where
  "num_ge a b = (\<not> isNaN a \<and> \<not> isNaN b \<and> \<not> num_lt a b)"

text \<open>Truthiness of a number in a condition: NaN and zero are falsy.\<close>

definition truthy :: "number \<Rightarrow> bool" where
  "truthy n = (n \<noteq> NaN \<and> n \<noteq> Fin 0)"

definition Math_PI :: number where
  "Math_PI = Fin pi"

text \<open>\<open>Number.MAX_VALUE\<close>, the largest finite double.\<close>

definition Number_MAX_VALUE :: number where
  "Number_MAX_VALUE = Fin ((2 - 1 / 2 ^ 52) * 2 ^ 1023)"

fun Math_sqrt :: "number \<Rightarrow> number" where
  "Math_sqrt (Fin a) = (if a < 0 then NaN else Fin (sqrt a))"
| "Math_sqrt PInf = PInf"
| "Math_sqrt _ = NaN"

text \<open>\<open>Math.pow(b, 2)\<close>, the only power the library takes.\<close>

definition Math_pow2 :: "number \<Rightarrow> number" where
  "Math_pow2 b = num_mul b b"

definition Math_min :: "number \<Rightarrow> number \<Rightarrow> number" where
  "Math_min a b = (if isNaN a \<or> isNaN b then NaN else if num_lt b a then b else a)"

definition Math_max :: "number \<Rightarrow> number \<Rightarrow> number" where
  "Math_max a b = (if isNaN a \<or> isNaN b then NaN else if num_lt a b then b else a)"

fun Math_cos :: "number \<Rightarrow> number" where
  "Math_cos (Fin a) = Fin (cos a)"
| "Math_cos _ = NaN"

fun Math_sin :: "number \<Rightarrow> number" where
  "Math_sin (Fin a) = Fin (sin a)"
| "Math_sin _ = NaN"

text \<open>\<open>Math.atan2(y, x)\<close>, the angle of the point \<open>(x, y)\<close> in \<open>(-\<pi>, \<pi>]\<close>.\<close>

definition atan2_real :: "real \<Rightarrow> real \<Rightarrow> real" where
  "atan2_real b a =
     (if 0 < a then arctan (b / a)
      else if a < 0 then (if 0 \<le> b then arctan (b / a) + pi else arctan (b / a) - pi)
      else if 0 < b then pi / 2
      else if b < 0 then - (pi / 2)
      else 0)"

fun Math_atan2 :: "number \<Rightarrow> number \<Rightarrow> number" where
  "Math_atan2 (Fin b) (Fin a) = Fin (atan2_real b a)"
| "Math_atan2 NaN _ = NaN"
| "Math_atan2 _ NaN = NaN"
| "Math_atan2 (Fin b) PInf = Fin 0"
| "Math_atan2 (Fin b) NInf = (if 0 \<le> b then Fin pi else Fin (- pi))"
| "Math_atan2 PInf (Fin a) = Fin (pi / 2)"
| "Math_atan2 NInf (Fin a) = Fin (- (pi / 2))"
| "Math_atan2 PInf PInf = Fin (pi / 4)"
| "Math_atan2 PInf NInf = Fin (3 * pi / 4)"
| "Math_atan2 NInf PInf = Fin (- (pi / 4))"
| "Math_atan2 NInf NInf = Fin (- (3 * pi / 4))"

text \<open>
  The value of an argument as \<open>parseFloat\<close> and \<open>parseInt\<close> see it: a number, or a
  value with no numeric reading (\<open>undefined\<close>, \<open>null\<close>, an object, a string that does
  not start with a numeral). A string that starts with a numeral, which the two
  functions read by its characters, is not among these values.
\<close>

datatype jsval = Number number | NonNumeric

fun parseFloat :: "jsval \<Rightarrow> number" where
  "parseFloat (Number n) = n"
| "parseFloat NonNumeric = NaN"

text \<open>
  \<open>parseInt\<close> of a number reads the number as it prints. Zero and the magnitudes
  from \<open>1e-6\<close> up to, not including, \<open>1e21\<close> print in plain notation, and \<open>parseInt\<close>
  drops the fraction (towards zero). Every other finite number prints in exponent
  notation, one digit before the point or the \<open>e\<close>, and \<open>parseInt\<close> reads that digit
  with the sign: \<open>parseInt(1e21)\<close> is 1 and \<open>parseInt(5e-7)\<close> is 5. NaN and the
  infinities give NaN. \<open>mantissa\<close> scales a positive number by tens into \<open>[1, 10)\<close>.
\<close>

definition trunc :: "real \<Rightarrow> real" where
  "trunc r = (if 0 \<le> r then of_int \<lfloor>r\<rfloor> else of_int \<lceil>r\<rceil>)"

definition plain_notation :: "real \<Rightarrow> bool" where
  "plain_notation r = (r = 0 \<or> 1 / 10 ^ 6 \<le> \<bar>r\<bar> \<and> \<bar>r\<bar> < 10 ^ 21)"

function mantissa :: "real \<Rightarrow> real" where
  "mantissa x =
     (if x \<le> 0 then 0
      else if x < 1 then mantissa (x * 10)
      else if 10 \<le> x then mantissa (x / 10)
      else x)"
  by pat_completeness auto
termination
proof (relation "measure (\<lambda>x. if x < 1 then nat \<lceil>1 / x\<rceil> + 10 else nat \<lfloor>x\<rfloor>)")
  show "wf (measure (\<lambda>x::real. if x < 1 then nat \<lceil>1 / x\<rceil> + 10 else nat \<lfloor>x\<rfloor>))"
    by simp
next
  fix x :: real
  assume x: "\<not> x \<le> 0" "x < 1"
  show "(x * 10, x) \<in> measure (\<lambda>x. if x < 1 then nat \<lceil>1 / x\<rceil> + 10 else nat \<lfloor>x\<rfloor>)"
  proof (cases "x * 10 < 1")
    case True
    have tenth: "\<lceil>y / 10\<rceil> < \<lceil>y\<rceil>" if "10 < y" for y :: real
      using that by linarith
    have "1 / (x * 10) = (1 / x) / 10" by simp
    moreover have "10 < 1 / x" using x True by (simp add: field_simps)
    then have "\<lceil>(1 / x) / 10\<rceil> < \<lceil>1 / x\<rceil>" by (rule tenth)
    moreover have "0 < \<lceil>1 / x\<rceil>" using x by (simp add: field_simps)
    ultimately show ?thesis using True x by simp
  next
    case False
    then have "x * 10 < 10" "1 \<le> x * 10" using x by simp_all
    then have "nat \<lfloor>x * 10\<rfloor> < 10" by linarith
    then show ?thesis using False x by simp
  qed
next
  fix x :: real
  assume x: "\<not> x \<le> 0" "\<not> x < 1" "10 \<le> x"
  then have "\<lfloor>x / 10\<rfloor> < \<lfloor>x\<rfloor>" "0 \<le> \<lfloor>x / 10\<rfloor>" by linarith+
  then show "(x / 10, x) \<in> measure (\<lambda>x. if x < 1 then nat \<lceil>1 / x\<rceil> + 10 else nat \<lfloor>x\<rfloor>)"
    using x by simp
qed

declare mantissa.simps [simp del]

fun parseInt_num :: "number \<Rightarrow> number" where
  "parseInt_num (Fin r) =
     (if plain_notation r then Fin (trunc r) else Fin (sgn r * of_int \<lfloor>mantissa \<bar>r\<bar>\<rfloor>))"
| "parseInt_num _ = NaN"

fun parseInt :: "jsval \<Rightarrow> number" where
  "parseInt (Number n) = parseInt_num n"
| "parseInt NonNumeric = NaN"


text \<open>
  \<open>parseInt\<close> of a string: leading white space is skipped, a sign is read, a prefix
  \<open>0x\<close> selects radix 16, and the longest run of digits is the value; no digit gives NaN.
\<close>

definition isWhiteSpace :: "char \<Rightarrow> bool" where
  "isWhiteSpace c = (of_char c \<in> {9, 10, 11, 12, 13, 32 :: nat})"

definition digitValue :: "char \<Rightarrow> nat option" where
  "digitValue c =
     (let n = of_char c :: nat in
      if 48 \<le> n \<and> n \<le> 57 then Some (n - 48)
      else if 97 \<le> n \<and> n \<le> 102 then Some (n - 87)
      else if 65 \<le> n \<and> n \<le> 70 then Some (n - 55)
      else None)"

definition isDigit :: "nat \<Rightarrow> char \<Rightarrow> bool" where
  "isDigit radix c = (case digitValue c of None \<Rightarrow> False | Some d \<Rightarrow> d < radix)"

definition digitsValue :: "nat \<Rightarrow> string \<Rightarrow> nat" where
  "digitsValue radix ds = foldl (\<lambda>acc c. acc * radix + (case digitValue c of None \<Rightarrow> 0 | Some d \<Rightarrow> d)) 0 ds"

definition parseInt_str :: "string \<Rightarrow> number" where
  "parseInt_str str =
     (let s1 = dropWhile isWhiteSpace str;
          negative = (s1 \<noteq> [] \<and> hd s1 = CHR ''-'');
          s2 = (if s1 \<noteq> [] \<and> (hd s1 = CHR ''-'' \<or> hd s1 = CHR ''+'') then tl s1 else s1);
          hex = (take 2 s2 = ''0x'' \<or> take 2 s2 = ''0X'');
          radix = (if hex then 16 else 10);
          s3 = (if hex then drop 2 s2 else s2);
          ds = takeWhile (isDigit radix) s3
      in if ds = [] then NaN
         else if negative then Fin (- real (digitsValue radix ds))
         else Fin (real (digitsValue radix ds)))"

text \<open>\<open>String.prototype.toLowerCase\<close> on the ASCII letters: an upper-case letter gets
  bit 5 of its code set (the code plus 32).\<close>

definition toLower_char :: "char \<Rightarrow> char" where
  "toLower_char c =
     (let n = of_char c :: nat
      in if 65 \<le> n \<and> n \<le> 90
         then (case c of Char b0 b1 b2 b3 b4 b5 b6 b7 \<Rightarrow> Char b0 b1 b2 b3 b4 True b6 b7)
         else c)"

definition toLowerCase :: "string \<Rightarrow> string" where
  "toLowerCase str = map toLower_char str"

section \<open>Geometry primitives\<close>

text \<open>
  \<open>Point(pointX, pointY)\<close>: both fields start at 0 and take the parsed argument unless
  it is NaN.
\<close>

datatype point = MkPoint (getX: number) (getY: number)

definition Point :: "jsval \<Rightarrow> jsval \<Rightarrow> point" where
  "Point pointX pointY =
     (let x = parseFloat pointX; y = parseFloat pointY
      in MkPoint (if \<not> isNaN x then x else Fin 0) (if \<not> isNaN y then y else Fin 0))"

text \<open>
  \<open>Point.getOffsetPoint\<close> and \<open>Point.getDistance\<close>. Both arguments are Points here;
  the source answers \<open>(0, 0)\<close> when one is not.
\<close>

definition getOffsetPoint :: "point \<Rightarrow> point \<Rightarrow> point" where
  "getOffsetPoint point1 point2 =
     (let x = num_sub (getX point2) (getX point1);
          y = num_sub (getY point2) (getY point1)
      in Point (Number x) (Number y))"

definition getDistance :: "point \<Rightarrow> point \<Rightarrow> number" where
  "getDistance point1 point2 =
     (let point = getOffsetPoint point1 point2
      in Math_sqrt (num_add (Math_pow2 (getX point)) (Math_pow2 (getY point))))"

text \<open>
  \<open>Rectangle(top, left, width, height)\<close>: \<open>top\<close> and \<open>left\<close> as a Point's fields;
  \<open>width\<close> and \<open>height\<close> take the parsed argument only when it is \<open>>= 0\<close>.
\<close>

datatype rectangle =
  MkRectangle (getTop: number) (getLeft: number) (getWidth: number) (getHeight: number)

definition Rectangle :: "jsval \<Rightarrow> jsval \<Rightarrow> jsval \<Rightarrow> jsval \<Rightarrow> rectangle" where
  "Rectangle top' left' width height =
     (let t = parseFloat top'; l = parseFloat left';
          w = parseFloat width; h = parseFloat height
      in MkRectangle (if \<not> isNaN t then t else Fin 0) (if \<not> isNaN l then l else Fin 0)
           (if num_ge w (Fin 0) then w else Fin 0) (if num_ge h (Fin 0) then h else Fin 0))"

datatype circle = MkCircle (getCenterX: number) (getCenterY: number) (getRadius: number)

definition Circle :: "jsval \<Rightarrow> jsval \<Rightarrow> jsval \<Rightarrow> circle" where
  "Circle centerX centerY radius =
     (let cx = parseFloat centerX; cy = parseFloat centerY; r = parseFloat radius
      in MkCircle (if \<not> isNaN cx then cx else Fin 0) (if \<not> isNaN cy then cy else Fin 0)
           (if num_ge r (Fin 0) then r else Fin 0))"

text \<open>
  A Line holds its two Points; the library builds one only from two Points (in the
  figure gesture), so a missing end point is not part of the type. A TextStyle holds a
  Font, or \<open>null\<close> when its constructor was given something else. A stored Text keeps
  the TextStyle it was drawn with; \<open>drawText\<close>, the one place that stores a Text, has
  read the size of the Font by then, so the Text holds that Font and the colour.
\<close>

datatype line = Line (getStartPoint: point) (getEndPoint: point)

datatype font = Font (getFamily: string) (getStyle: string) (getSize: string)

datatype textStyle = TextStyle (getFont: "font option") (getColor: string)

datatype text_obj = Text (getText: string) (getPoint: point) (getTextFont: font) (getTextColor: string)

definition getFontString :: "font \<Rightarrow> string" where
  "getFontString f = getStyle f @ '' '' @ getSize f @ '' '' @ [CHR 0x22] @ getFamily f @ [CHR 0x22]"

text \<open>
  An entry of a layer's \<open>paths\<close>: an array of Points (a stroke, or the anchor of a
  gesture in progress), or a shape. Every array the library stores is built as
  \<open>[new Point(x, y)]\<close> and every \<open>points.pop()\<close> is followed by \<open>points.push(point)\<close>, so
  an array is never stored empty: \<open>PointArray ps p\<close> is the array \<open>ps @ [p]\<close>.
\<close>

datatype path =
    PointArray "point list" point
  | Rect rectangle
  | Circ circle
  | Ln line
  | Txt text_obj

definition points_of :: "point list \<Rightarrow> point \<Rightarrow> point list" where
  "points_of ps p = ps @ [p]"


section \<open>The rendering context of a layer\<close>

text \<open>
  The current transformation matrix of a 2D context, \<open>(a, b, c, d, e, f)\<close>, maps the
  point \<open>(x, y)\<close> to \<open>(a x + c y + e, b x + d y + f)\<close>. \<open>context.transform\<close> multiplies
  the current matrix by its argument on the right, \<open>context.setTransform\<close> replaces
  it; both ignore a call with an argument that is not finite.
\<close>

datatype matrix = Matrix (m_a: real) (m_b: real) (m_c: real) (m_d: real) (m_e: real) (m_f: real)

definition identity_matrix :: matrix where
  "identity_matrix = Matrix 1 0 0 1 0 0"

fun mat_mul :: "matrix \<Rightarrow> matrix \<Rightarrow> matrix" where
  "mat_mul (Matrix a b c d e f) (Matrix a' b' c' d' e' f') =
     Matrix (a * a' + c * b') (b * a' + d * b') (a * c' + c * d') (b * c' + d * d')
       (a * e' + c * f' + e) (b * e' + d * f' + f)"

fun apply_matrix :: "matrix \<Rightarrow> real \<times> real \<Rightarrow> real \<times> real" where
  "apply_matrix (Matrix a b c d e f) (px, py) = (a * px + c * py + e, b * px + d * py + f)"

fun finite_matrix :: "number \<Rightarrow> number \<Rightarrow> number \<Rightarrow> number \<Rightarrow> number \<Rightarrow> number \<Rightarrow> matrix option"
  where
  "finite_matrix (Fin a) (Fin b) (Fin c) (Fin d) (Fin e) (Fin f) = Some (Matrix a b c d e f)"
| "finite_matrix _ _ _ _ _ _ = None"

definition ctx_transform ::
  "number \<Rightarrow> number \<Rightarrow> number \<Rightarrow> number \<Rightarrow> number \<Rightarrow> number \<Rightarrow> matrix \<Rightarrow> matrix" where
  "ctx_transform a b c d e f m =
     (case finite_matrix a b c d e f of None \<Rightarrow> m | Some n \<Rightarrow> mat_mul m n)"

definition ctx_setTransform ::
  "number \<Rightarrow> number \<Rightarrow> number \<Rightarrow> number \<Rightarrow> number \<Rightarrow> number \<Rightarrow> matrix \<Rightarrow> matrix" where
  "ctx_setTransform a b c d e f m =
     (case finite_matrix a b c d e f of None \<Rightarrow> m | Some n \<Rightarrow> n)"

text \<open>
  What a layer shows is the list of the paint calls made since the surface was last
  cleared, each with the matrix in effect: a stroked path through the given vertices,
  a rectangle or a full arc (stroked, then filled), a text.
\<close>

datatype painted =
    StrokePath "point list"
  | RectPath number number number number
  | ArcPath number number number
  | FillText string number number

type_synonym pixels = "(matrix \<times> painted) list"

record Transforms =
  translate_x :: number
  translate_y :: number
  scale_x :: number
  scale_y :: number
  skew_x :: number
  skew_y :: number
  rotate_r :: number

text \<open>
  A layer (class Canvas): the size of its canvas element, its z-index, the stored
  objects, the transform amounts, and of its context the current matrix, the stack of
  \<open>save()\<close> and the surface. Colours, line width and fonts are not modelled.
\<close>

record Canvas =
  canvas_width :: nat
  canvas_height :: nat
  zIndex :: nat
  paths :: "path list"
  transforms :: Transforms
  ctm :: matrix
  saved :: "matrix list"
  surface :: pixels

definition initial_transforms :: Transforms where
  "initial_transforms =
     \<lparr>translate_x = Fin 0, translate_y = Fin 0, scale_x = Fin 1, scale_y = Fin 1,
      skew_x = Fin 0, skew_y = Fin 0, rotate_r = Fin 0\<rparr>"

definition Canvas_clear :: "Canvas \<Rightarrow> Canvas" where
  "Canvas_clear c = c\<lparr>surface := []\<rparr>"

definition to_nat :: "number \<Rightarrow> nat" where
  "to_nat n = (case n of Fin r \<Rightarrow> nat \<lfloor>r\<rfloor> | _ \<Rightarrow> 0)"

text \<open>
  \<open>new Canvas(container, canvas, width, height, zIndex)\<close>. The argument \<open>canvas\<close> is
  the size of the host's canvas element, or \<open>None\<close> when the constructor creates one
  (300 by 150, the size of a new canvas element).
\<close>

definition new_Canvas :: "(nat \<times> nat) option \<Rightarrow> jsval \<Rightarrow> jsval \<Rightarrow> nat \<Rightarrow> Canvas" where
  "new_Canvas canvas width height z =
     (let (w0, h0) = (case canvas of Some wh \<Rightarrow> wh | None \<Rightarrow> (300, 150));
          w = parseInt width; h = parseInt height
      in Canvas_clear
           \<lparr>canvas_width = (if num_gt w (Fin 0) then to_nat w else w0),
            canvas_height = (if num_gt h (Fin 0) then to_nat h else h0),
            zIndex = z, paths = [], transforms = initial_transforms,
            ctm = identity_matrix, saved = [], surface = []\<rparr>)"

subsection \<open>Canvas.prototype.getCenterPoint\<close>

text \<open>The inner loop over the Points of an array: four running bounds.\<close>

fun bounds :: "point list \<Rightarrow> number \<times> number \<times> number \<times> number \<Rightarrow> number \<times> number \<times> number \<times> number"
  where
  "bounds [] acc = acc"
| "bounds (p # ps) (minX, minY, maxX, maxY) =
     bounds ps
       (if num_lt (getX p) minX then getX p else minX,
        if num_lt (getY p) minY then getY p else minY,
        if num_gt (getX p) maxX then getX p else maxX,
        if num_gt (getY p) maxY then getY p else maxY)"

definition box_center :: "number \<times> number \<times> number \<times> number \<Rightarrow> number \<times> number" where
  "box_center b =
     (case b of (minX, minY, maxX, maxY) \<Rightarrow>
        (parseInt_num (num_add (num_div (num_sub maxX minX) (Fin 2)) minX),
         parseInt_num (num_add (num_div (num_sub maxY minY) (Fin 2)) minY)))"

text \<open>
  The body of the outer loop: the values it assigns to \<open>centerX\<close> and \<open>centerY\<close> for
  one stored object. \<open>measureText\<close> is \<open>context.measureText(text).width\<close>, a capability of
  the host.
\<close>

fun center_of :: "(string \<Rightarrow> number) \<Rightarrow> path \<Rightarrow> number \<times> number" where
  "center_of measureText (PointArray ps p) =
     box_center (bounds (points_of ps p) (Number_MAX_VALUE, Number_MAX_VALUE, Fin 0, Fin 0))"
| "center_of measureText (Ln l) =
     (let start = getStartPoint l; end' = getEndPoint l
      in box_center
           (Math_min (getX start) (getX end'), Math_min (getY start) (getY end'),
            Math_max (getX start) (getX end'), Math_max (getY start) (getY end')))"
| "center_of measureText (Rect r) =
     (num_add (parseInt_num (num_div (getWidth r) (Fin 2))) (getLeft r),
      num_add (parseInt_num (num_div (getHeight r) (Fin 2))) (getTop r))"
| "center_of measureText (Circ c) = (getCenterX c, getCenterY c)"
| "center_of measureText (Txt t) =
     (let fontSize = parseInt_str (getSize (getTextFont t))
      in (num_add (getX (getPoint t)) (parseInt_num (num_div (measureText (getText t)) (Fin 2))),
          num_add (getY (getPoint t)) (parseInt_num (num_div fontSize (Fin 2)))))"

text \<open>
  The loop runs over every stored object, and each pass overwrites \<open>centerX\<close> and
  \<open>centerY\<close>; they start at 0.
\<close>

definition getCenterPoint :: "(string \<Rightarrow> number) \<Rightarrow> path list \<Rightarrow> point" where
  "getCenterPoint measureText ps =
     (case foldl (\<lambda>center p. center_of measureText p) (Fin 0, Fin 0) ps of
        (centerX, centerY) \<Rightarrow> Point (Number centerX) (Number centerY))"

subsection \<open>Canvas.prototype.draw and Canvas.prototype.transform\<close>

fun draw_path :: "path \<Rightarrow> painted list" where
  "draw_path (PointArray ps p) =
     map (\<lambda>j. StrokePath (take (Suc j) (points_of ps p))) [1..<length (points_of ps p)]"
| "draw_path (Rect r) = [RectPath (getTop r) (getLeft r) (getWidth r) (getHeight r)]"
| "draw_path (Circ c) = [ArcPath (getCenterX c) (getCenterY c) (getRadius c)]"
| "draw_path (Ln l) = [StrokePath [getStartPoint l, getEndPoint l]]"
| "draw_path (Txt t) = [FillText (getText t) (getX (getPoint t)) (getY (getPoint t))]"

definition paint :: "painted list \<Rightarrow> Canvas \<Rightarrow> Canvas" where
  "paint ds c = c\<lparr>surface := surface c @ map (\<lambda>d. (ctm c, d)) ds\<rparr>"

definition ctx_save :: "Canvas \<Rightarrow> Canvas" where
  "ctx_save c = c\<lparr>saved := ctm c # saved c\<rparr>"

definition ctx_restore :: "Canvas \<Rightarrow> Canvas" where
  "ctx_restore c = (case saved c of [] \<Rightarrow> c | m # ms \<Rightarrow> c\<lparr>ctm := m, saved := ms\<rparr>)"

text \<open>An \<open>amounts\<close> argument: an array, or another value, which is wrapped in one.\<close>

datatype amounts = Array "jsval list" | Single jsval

definition wrap_amounts :: "amounts \<Rightarrow> jsval list" where
  "wrap_amounts amounts' = (case amounts' of Array xs \<Rightarrow> xs | Single v \<Rightarrow> [v])"

text \<open>The first switch of \<open>transform\<close>: the amounts replace the stored ones.\<close>

definition store_amounts :: "string \<Rightarrow> jsval list \<Rightarrow> Transforms \<Rightarrow> Transforms" where
  "store_amounts t as tr =
     (if t = ''translate'' then
        (if length as < 2 then tr
         else let dx = parseFloat (as ! 0); dy = parseFloat (as ! 1)
              in if isNaN dx \<or> isNaN dy then tr else tr\<lparr>translate_x := dx, translate_y := dy\<rparr>)
      else if t = ''scale'' then
        (if length as < 2 then tr
         else let sx = parseFloat (as ! 0); sy = parseFloat (as ! 1)
              in if isNaN sx \<or> isNaN sy then tr else tr\<lparr>scale_x := sx, scale_y := sy\<rparr>)
      else if t = ''rotate'' then
        (if length as < 1 then tr
         else let degree = parseFloat (as ! 0)
              in if isNaN degree then tr
                 else tr\<lparr>rotate_r := num_div (num_mul degree Math_PI) (Fin 180)\<rparr>)
      else tr)"

text \<open>The second switch: the calls on the context that build the matrix.\<close>

definition set_matrix :: "string \<Rightarrow> number \<Rightarrow> number \<Rightarrow> Transforms \<Rightarrow> matrix \<Rightarrow> matrix" where
  "set_matrix t centerX centerY tr m =
     (let r = rotate_r tr in
      if t = ''translate'' \<or> t = ''scale'' then
        ctx_transform (scale_x tr) (Fin 0) (Fin 0) (scale_y tr) (translate_x tr) (translate_y tr)
          (ctx_transform (Fin 1) (Fin 0) (Fin 0) (Fin 1) (num_neg centerX) (num_neg centerY)
            (ctx_transform (Math_cos r) (Math_sin r) (num_neg (Math_sin r)) (Math_cos r) (Fin 0) (Fin 0)
              (ctx_transform (Fin 1) (Fin 0) (Fin 0) (Fin 1) centerX centerY
                (ctx_setTransform (Fin 1) (Fin 0) (Fin 0) (Fin 1) (Fin 0) (Fin 0) m))))
      else if t = ''rotate'' then
        ctx_transform (Fin 1) (Fin 0) (Fin 0) (Fin 1) (num_neg centerX) (num_neg centerY)
          (ctx_transform (Math_cos r) (Math_sin r) (num_neg (Math_sin r)) (Math_cos r) (Fin 0) (Fin 0)
            (ctx_transform (Fin 1) (Fin 0) (Fin 0) (Fin 1) centerX centerY
              (ctx_transform (scale_x tr) (Fin 0) (Fin 0) (scale_y tr) (translate_x tr) (translate_y tr)
                (ctx_setTransform (Fin 1) (Fin 0) (Fin 0) (Fin 1) (Fin 0) (Fin 0) m))))
      else m)"

text \<open>
  \<open>transform(type, amounts)\<close> up to the end of the second switch: the amounts are
  stored, the surface is cleared, the context is saved and the matrix is set.
\<close>

definition Canvas_transform_set :: "(string \<Rightarrow> number) \<Rightarrow> string \<Rightarrow> amounts \<Rightarrow> Canvas \<Rightarrow> Canvas" where
  "Canvas_transform_set measureText type' amounts' c =
     (let as = wrap_amounts amounts';
          centerPoint = getCenterPoint measureText (paths c);
          centerX = getX centerPoint;
          centerY = getY centerPoint;
          t = toLowerCase type';
          c1 = c\<lparr>transforms := store_amounts t as (transforms c)\<rparr>;
          c2 = ctx_save (Canvas_clear c1)
      in c2\<lparr>ctm := set_matrix t centerX centerY (transforms c2) (ctm c2)\<rparr>)"

text \<open>\<open>draw(false)\<close>: every stored object is painted, in order.\<close>

definition Canvas_draw :: "Canvas \<Rightarrow> Canvas" where
  "Canvas_draw c = paint (concat (map draw_path (paths c))) c"

text \<open>
  \<open>transform(type, amounts)\<close>, called with two arguments: then the objects are drawn
  and the context is restored.
\<close>

definition Canvas_transform :: "(string \<Rightarrow> number) \<Rightarrow> string \<Rightarrow> amounts \<Rightarrow> Canvas \<Rightarrow> Canvas" where
  "Canvas_transform measureText type' amounts' c =
     ctx_restore (Canvas_draw (Canvas_transform_set measureText type' amounts' c))"

text \<open>
  \<open>draw(true)\<close> calls \<open>transform()\<close> with no argument first: the type reads
  \<open>undefined\<close>, so nothing is stored and no matrix is set; the surface is cleared and
  the context saved, and it is not restored.
\<close>

definition Canvas_draw_true :: "Canvas \<Rightarrow> Canvas" where
  "Canvas_draw_true c = Canvas_draw (ctx_save (Canvas_clear c))"

subsection \<open>Canvas.prototype.getOffsetX and getOffsetY\<close>

text \<open>
  The container's position and scroll offsets, and a pointer event: a value that is not
  an Event, a mouse event (with \<open>pageX\<close> and \<open>pageY\<close>, and no \<open>touches\<close>), or a touch
  event (with \<open>touches\<close> and \<open>changedTouches\<close>, and no \<open>pageX\<close>). \<open>None\<close> is the
  TypeError of reading \<open>[0]\<close> of the \<open>undefined\<close> touches of a mouse event.
\<close>

datatype container = Container (offsetLeft: number) (offsetTop: number) (scrollLeft: number) (scrollTop: number)

datatype touch = Touch (touch_pageX: number) (touch_pageY: number)

datatype event = NotAnEvent | MouseEvent number number | TouchEvent "touch list" "touch list"

definition clamp_offset :: "number \<Rightarrow> nat \<Rightarrow> number" where
  "clamp_offset offset w =
     (let o1 = (if num_lt offset (Fin 0) then Fin 0 else offset)
      in if num_gt o1 (Fin (real w)) then Fin (real w) else o1)"

definition getOffsetX :: "container \<Rightarrow> Canvas \<Rightarrow> event \<Rightarrow> number option" where
  "getOffsetX cont c ev =
     (case ev of
        NotAnEvent \<Rightarrow> Some (Fin 0)
      | MouseEvent pageX pageY \<Rightarrow>
          if truthy pageX
          then Some (clamp_offset (num_add (num_sub pageX (offsetLeft cont)) (scrollLeft cont)) (canvas_width c))
          else None
      | TouchEvent touches changedTouches \<Rightarrow>
          (let pageX = (case touches of t # _ \<Rightarrow> touch_pageX t
                        | [] \<Rightarrow> (case changedTouches of t # _ \<Rightarrow> touch_pageX t | [] \<Rightarrow> NaN))
           in Some (clamp_offset (num_add (num_sub pageX (offsetLeft cont)) (scrollLeft cont)) (canvas_width c))))"

definition getOffsetY :: "container \<Rightarrow> Canvas \<Rightarrow> event \<Rightarrow> number option" where
  "getOffsetY cont c ev =
     (case ev of
        NotAnEvent \<Rightarrow> Some (Fin 0)
      | MouseEvent pageX pageY \<Rightarrow>
          if truthy pageY
          then Some (clamp_offset (num_add (num_sub pageY (offsetTop cont)) (scrollTop cont)) (canvas_height c))
          else None
      | TouchEvent touches changedTouches \<Rightarrow>
          (let pageY = (case touches of t # _ \<Rightarrow> touch_pageY t
                        | [] \<Rightarrow> (case changedTouches of t # _ \<Rightarrow> touch_pageY t | [] \<Rightarrow> NaN))
           in Some (clamp_offset (num_add (num_sub pageY (offsetTop cont)) (scrollTop cont)) (canvas_height c))))"


section \<open>The application object (class ArtCanvas)\<close>

text \<open>
  The callbacks of the host are observers: an invocation is recorded with its
  arguments (a layer by its index), in order.
\<close>

datatype callback =
    Drawstart number number
  | Drawmove number number
  | Drawend number number
  | Changemode string
  | Selectlayer nat
  | Addlayer int
  | Removelayer nat

text \<open>The text input that \<open>createTextbox\<close> puts into the container: its value and position.\<close>

datatype textbox = Textbox (box_value: string) (box_left: number) (box_top: number)

text \<open>
  The fields of an ArtCanvas, the two variables of its constructor's closure
  (\<open>imagedata\<close>, \<open>isDown\<close>), and of the container its text input, its size and the
  text metrics of the host.
\<close>

record ArtCanvas =
  mode :: string
  figure :: string
  transform :: string
  layers :: "Canvas list"
  activeLayer :: int
  textStyle :: "textStyle option"
  invoked :: "callback list"
  imagedata :: "pixels option"
  isDown :: bool
  textbox :: "textbox option"
  container_width :: number
  container_height :: number
  measureTextWidth :: "string \<Rightarrow> number"

definition new_ArtCanvas :: "(string \<Rightarrow> number) \<Rightarrow> (nat \<times> nat) option \<Rightarrow> jsval \<Rightarrow> jsval \<Rightarrow> ArtCanvas" where
  "new_ArtCanvas metrics canvas width height =
     (let w = parseInt width; h = parseInt height
      in \<lparr>mode = ''hand'', figure = ''rectangle'', transform = ''translate'',
          layers = [new_Canvas canvas width height (0 + 2)],
          activeLayer = 0, textStyle = None, invoked = [], imagedata = None, isDown = False,
          textbox = None,
          container_width = (if num_gt w (Fin 0) then w else Fin 300),
          container_height = (if num_gt h (Fin 0) then h else Fin 300),
          measureTextWidth = metrics\<rparr>)"

text \<open>\<open>this.layers[this.activeLayer]\<close>: \<open>None\<close> is \<open>undefined\<close>, for an index out of range.\<close>

definition activeCanvas :: "ArtCanvas \<Rightarrow> Canvas option" where
  "activeCanvas s =
     (if 0 \<le> activeLayer s \<and> activeLayer s < int (length (layers s))
      then Some (layers s ! nat (activeLayer s)) else None)"

definition set_activeCanvas :: "Canvas \<Rightarrow> ArtCanvas \<Rightarrow> ArtCanvas" where
  "set_activeCanvas c s = s\<lparr>layers := (layers s)[nat (activeLayer s) := c]\<rparr>"

text \<open>
  A call returns, or throws: a TypeError (a method called on \<open>undefined\<close> or \<open>null\<close>),
  or the IndexSizeError of \<open>getImageData\<close> on a canvas without width or height.
  Either way it leaves a state behind.
\<close>

datatype 'a result = Returned 'a | TypeError 'a | IndexSizeError 'a

fun state_of :: "'a result \<Rightarrow> 'a" where
  "state_of (Returned s) = s"
| "state_of (TypeError s) = s"
| "state_of (IndexSizeError s) = s"

definition then_do :: "'a result \<Rightarrow> ('a \<Rightarrow> 'a result) \<Rightarrow> 'a result" where
  "then_do r f =
     (case r of Returned s \<Rightarrow> f s | TypeError s \<Rightarrow> TypeError s | IndexSizeError s \<Rightarrow> IndexSizeError s)"

subsection \<open>Layers\<close>

definition validateLayerNumer ::
  "jsval \<Rightarrow> (nat \<Rightarrow> ArtCanvas \<Rightarrow> ArtCanvas) \<Rightarrow> ArtCanvas \<Rightarrow> bool \<times> ArtCanvas" where
  "validateLayerNumer layerNumber callback s =
     (let index = parseInt layerNumber
      in if num_ge index (Fin 0) \<and> num_lt index (Fin (real (length (layers s))))
         then (True, callback (to_nat index) s)
         else (False, s))"

definition selectLayer :: "jsval \<Rightarrow> ArtCanvas \<Rightarrow> ArtCanvas" where
  "selectLayer layerNumber s =
     snd (validateLayerNumer layerNumber
            (\<lambda>index s. s\<lparr>activeLayer := int index, invoked := invoked s @ [Selectlayer index]\<rparr>) s)"

definition addLayer :: "jsval \<Rightarrow> jsval \<Rightarrow> ArtCanvas \<Rightarrow> ArtCanvas" where
  "addLayer width height s =
     (let s1 = s\<lparr>layers := layers s @ [new_Canvas None width height (length (layers s) + 2)]\<rparr>;
          s2 = s1\<lparr>activeLayer := int (length (layers s1)) - 1\<rparr>
      in s2\<lparr>invoked := invoked s2 @ [Addlayer (activeLayer s2)]\<rparr>)"

text \<open>\<open>this.layers.splice(index, 1)\<close> takes the entry at \<open>index\<close> out.\<close>

definition splice1 :: "nat \<Rightarrow> 'a list \<Rightarrow> 'a list" where
  "splice1 index xs = take index xs @ drop (Suc index) xs"

definition removeLayer :: "jsval \<Rightarrow> ArtCanvas \<Rightarrow> ArtCanvas" where
  "removeLayer layerNumber s =
     snd (validateLayerNumer layerNumber
            (\<lambda>index s. s\<lparr>layers := splice1 index (layers s),
                          activeLayer := activeLayer s - 1,
                          invoked := invoked s @ [Removelayer index]\<rparr>) s)"

subsection \<open>Mode, figure and transform kind\<close>

definition setFigure :: "string \<Rightarrow> ArtCanvas \<Rightarrow> ArtCanvas" where
  "setFigure fig s =
     (let f = toLowerCase fig
      in if f = ''rectangle'' \<or> f = ''circle'' \<or> f = ''line'' then s\<lparr>figure := f\<rparr> else s)"

definition setTransform :: "string \<Rightarrow> ArtCanvas \<Rightarrow> ArtCanvas" where
  "setTransform tr s =
     (let t = toLowerCase tr
      in if t = ''translate'' \<or> t = ''scale'' \<or> t = ''rotate'' then s\<lparr>transform := t\<rparr> else s)"

definition setTextStyle :: "textStyle \<Rightarrow> ArtCanvas \<Rightarrow> ArtCanvas" where
  "setTextStyle ts s = s\<lparr>textStyle := Some ts\<rparr>"

text \<open>
  \<open>Canvas.prototype.drawText(textStyle)\<close> on the layer \<open>c\<close>, the active one: without a
  TextStyle or without a text input in the container it does nothing. Otherwise it
  reads the size of the style's Font, which throws a TypeError when the style has no
  Font; then the input is removed, its text is painted and stored.
\<close>

definition drawText :: "textStyle option \<Rightarrow> Canvas \<Rightarrow> ArtCanvas \<Rightarrow> ArtCanvas result" where
  "drawText style c s =
     (case style of
        None \<Rightarrow> Returned s
      | Some st \<Rightarrow>
          (case textbox s of
             None \<Rightarrow> Returned s
           | Some box \<Rightarrow>
               (case getFont st of
                  None \<Rightarrow> TypeError s
                | Some font \<Rightarrow>
                    (let fontSize = parseInt_str (getSize font);
                         txt = box_value box;
                         x = parseInt_num (box_left box);
                         y = num_add (parseInt_num (box_top box)) fontSize;
                         c1 = paint [FillText txt x y] c;
                         c2 = c1\<lparr>paths := paths c1 @
                                  [Txt (Text txt (Point (Number x) (Number y)) font (getColor st))]\<rparr>
                     in Returned (set_activeCanvas c2 (s\<lparr>textbox := None\<rparr>))))))"

text \<open>
  \<open>setMode(mode)\<close>: the switch stores a valid mode (and adds a layer for the text
  mode); whatever the argument, the pending text of the active layer is drawn and the
  \<open>changemode\<close> callback is invoked with the lower-cased argument.
\<close>

definition setMode :: "string \<Rightarrow> ArtCanvas \<Rightarrow> ArtCanvas result" where
  "setMode md s =
     (let m = toLowerCase md;
          s1 = (if m = ''hand'' \<or> m = ''figure'' \<or> m = ''transform'' then s\<lparr>mode := m\<rparr>
                else if m = ''text''
                then addLayer (Number (container_width s)) (Number (container_height s)) (s\<lparr>mode := m\<rparr>)
                else s)
      in case activeCanvas s1 of
           None \<Rightarrow> TypeError s1
         | Some canvas \<Rightarrow>
             then_do (drawText (textStyle s1) canvas s1)
               (\<lambda>s2. Returned (s2\<lparr>invoked := invoked s2 @ [Changemode m]\<rparr>)))"

subsection \<open>translate, scale, rotate\<close>

definition on_active :: "(Canvas \<Rightarrow> Canvas) \<Rightarrow> ArtCanvas \<Rightarrow> ArtCanvas result" where
  "on_active f s =
     (case activeCanvas s of
        None \<Rightarrow> TypeError s
      | Some canvas \<Rightarrow> Returned (set_activeCanvas (f canvas) s))"

definition translate :: "jsval \<Rightarrow> jsval \<Rightarrow> ArtCanvas \<Rightarrow> ArtCanvas result" where
  "translate translateX translateY s =
     on_active (Canvas_transform (measureTextWidth s) ''translate'' (Array [translateX, translateY])) s"

definition scale :: "jsval \<Rightarrow> jsval \<Rightarrow> ArtCanvas \<Rightarrow> ArtCanvas result" where
  "scale scaleX scaleY s =
     on_active (Canvas_transform (measureTextWidth s) ''scale'' (Array [scaleX, scaleY])) s"

definition rotate_by :: "jsval \<Rightarrow> ArtCanvas \<Rightarrow> ArtCanvas result" where
  "rotate_by degree s =
     on_active (Canvas_transform (measureTextWidth s) ''rotate'' (Array [degree])) s"


section \<open>Pointer gestures\<close>

text \<open>
  The three listeners receive events of the type they are registered for, so the
  tests of \<open>event.type\<close> in \<open>_figure\<close> distinguish the listener that calls it.
\<close>

datatype evtype = START | MOVE | END

text \<open>
  \<open>_figure(activeCanvas, activeContext, x, y, event)\<close>. At the start of a gesture it
  takes the snapshot with \<open>getImageData\<close>, which throws an IndexSizeError on a canvas
  of width or height 0. Otherwise it pops the last entry of \<open>paths\<close> and that entry's last
  Point and pushes both back, restores the snapshot, paints the figure from that Point to
  \<open>(x, y)\<close>, and at the end of the gesture replaces the entry by the shape. It throws
  when \<open>paths\<close> is empty, when its last entry is not an array (the entry stays popped),
  and when there is no snapshot.
\<close>

definition p_figure :: "number \<Rightarrow> number \<Rightarrow> evtype \<Rightarrow> Canvas \<Rightarrow> ArtCanvas \<Rightarrow> ArtCanvas result" where
  "p_figure x y event c s =
     (if event = START
      then (if canvas_width c = 0 \<or> canvas_height c = 0 then IndexSizeError s
            else Returned (s\<lparr>imagedata := Some (surface c)\<rparr>))
      else if paths c = [] then TypeError s
      else case last (paths c) of
        PointArray ps point \<Rightarrow>
          (case imagedata s of
             None \<Rightarrow> TypeError s
           | Some img \<Rightarrow>
              (let c1 = c\<lparr>surface := img\<rparr> in
               if figure s = ''rectangle'' then
                 (let left' = getX point; top' = getY point;
                      offset = getOffsetPoint point (Point (Number x) (Number y));
                      c2 = paint [RectPath left' top' (getX offset) (getY offset)] c1;
                      c3 = (if event = END
                            then c2\<lparr>paths := butlast (paths c2) @
                                   [Rect (Rectangle (Number left') (Number top')
                                            (Number (getX offset)) (Number (getY offset)))]\<rparr>
                            else c2)
                  in Returned (set_activeCanvas c3 s))
               else if figure s = ''circle'' then
                 (let centerX = getX point; centerY = getY point;
                      radius = getDistance point (Point (Number x) (Number y));
                      c2 = paint [ArcPath centerX centerY radius] c1;
                      c3 = (if event = END
                            then c2\<lparr>paths := butlast (paths c2) @
                                   [Circ (Circle (Number centerX) (Number centerY) (Number radius))]\<rparr>
                            else c2)
                  in Returned (set_activeCanvas c3 s))
               else if figure s = ''line'' then
                 (let c2 = paint [StrokePath [MkPoint (getX point) (getY point), MkPoint x y]] c1;
                      c3 = (if event = END
                            then c2\<lparr>paths := butlast (paths c2) @
                                   [Ln (Line point (Point (Number x) (Number y)))]\<rparr>
                            else c2)
                  in Returned (set_activeCanvas c3 s))
               else Returned (set_activeCanvas c1 s)))
      | _ \<Rightarrow> TypeError (set_activeCanvas (c\<lparr>paths := butlast (paths c)\<rparr>) s))"

text \<open>
  \<open>_transform(activeCanvas, x, y)\<close>: the last entry of \<open>paths\<close> and its last Point are
  popped, the amounts are computed from the offset of \<open>(x, y)\<close> to that Point, the layer
  is transformed (while the entry is off the list), and Point and entry are pushed back.
\<close>

definition transform_amounts :: "string \<Rightarrow> point \<Rightarrow> Canvas \<Rightarrow> jsval list" where
  "transform_amounts kind offset c =
     (if kind = ''translate'' then [Number (getX offset), Number (getY offset)]
      else if kind = ''scale'' then
        (let offsetX = getX offset; offsetY = getY offset;
             scaleX = (if offsetX \<noteq> Fin 0
                       then num_add (Fin 1) (num_div offsetX (Fin (real (canvas_width c)))) else Fin 1);
             scaleY = (if offsetY \<noteq> Fin 0
                       then num_add (Fin 1) (num_div offsetY (Fin (real (canvas_height c)))) else Fin 1)
         in [Number scaleX, Number scaleY])
      else if kind = ''rotate'' then
        (let radian = Math_atan2 (getY offset) (getX offset);
             degree = num_mul (num_div radian Math_PI) (Fin 180)
         in [Number degree])
      else [])"

definition p_transform :: "number \<Rightarrow> number \<Rightarrow> Canvas \<Rightarrow> ArtCanvas \<Rightarrow> ArtCanvas result" where
  "p_transform x y c s =
     (if paths c = [] then TypeError s
      else case last (paths c) of
        PointArray ps point \<Rightarrow>
          (let offset = getOffsetPoint point (Point (Number x) (Number y));
               as = transform_amounts (transform s) offset c;
               c1 = c\<lparr>paths := butlast (paths c)\<rparr>;
               c2 = Canvas_transform (measureTextWidth s) (transform s) (Array as) c1;
               c3 = c2\<lparr>paths := paths c2 @ [PointArray ps point]\<rparr>
           in Returned (set_activeCanvas c3 s))
      | _ \<Rightarrow> TypeError (set_activeCanvas (c\<lparr>paths := butlast (paths c)\<rparr>) s))"

text \<open>\<open>createTextbox(point)\<close>: refused when the container already holds a text input.\<close>

definition createTextbox :: "point \<Rightarrow> ArtCanvas \<Rightarrow> ArtCanvas" where
  "createTextbox point s =
     (case textbox s of
        Some box \<Rightarrow> s
      | None \<Rightarrow> s\<lparr>textbox := Some (Textbox [] (getX point) (getY point))\<rparr>)"

text \<open>
  The three listeners, from the point where the active layer \<open>c\<close> and the coordinates
  \<open>(x, y)\<close> are known.
\<close>

definition start_at :: "number \<Rightarrow> number \<Rightarrow> Canvas \<Rightarrow> ArtCanvas \<Rightarrow> ArtCanvas result" where
  "start_at x y c s =
     (if mode s = ''text'' then Returned (createTextbox (Point (Number x) (Number y)) s)
      else
        then_do (if mode s = ''figure'' then p_figure x y START c s else Returned s)
          (\<lambda>s1. let s2 = set_activeCanvas
                            (c\<lparr>paths := paths c @ [PointArray [] (Point (Number x) (Number y))]\<rparr>) s1;
                     s3 = s2\<lparr>isDown := True\<rparr>
                 in Returned (s3\<lparr>invoked := invoked s3 @ [Drawstart x y]\<rparr>)))"

definition hand_move :: "number \<Rightarrow> number \<Rightarrow> Canvas \<Rightarrow> ArtCanvas \<Rightarrow> ArtCanvas result" where
  "hand_move x y c s =
     (if paths c = [] then TypeError s
      else case last (paths c) of
        PointArray ps point \<Rightarrow>
          (let c1 = paint [StrokePath [MkPoint (getX point) (getY point), MkPoint x y]] c;
               c2 = c1\<lparr>paths := butlast (paths c1) @
                         [PointArray (ps @ [point]) (Point (Number x) (Number y))]\<rparr>
           in Returned (set_activeCanvas c2 s))
      | _ \<Rightarrow> TypeError (set_activeCanvas (c\<lparr>paths := butlast (paths c)\<rparr>) s))"

definition move_at :: "number \<Rightarrow> number \<Rightarrow> Canvas \<Rightarrow> ArtCanvas \<Rightarrow> ArtCanvas result" where
  "move_at x y c s =
     then_do
       (if mode s = ''hand'' then hand_move x y c s
        else if mode s = ''text'' then Returned s
        else if mode s = ''figure'' then p_figure x y MOVE c s
        else if mode s = ''transform'' then p_transform x y c s
        else Returned s)
       (\<lambda>s1. Returned (s1\<lparr>invoked := invoked s1 @ [Drawmove x y]\<rparr>))"

definition end_at :: "number \<Rightarrow> number \<Rightarrow> Canvas \<Rightarrow> ArtCanvas \<Rightarrow> ArtCanvas result" where
  "end_at x y c s =
     then_do
       (if mode s = ''hand'' then Returned s
        else if mode s = ''figure''
        then then_do (p_figure x y END c s) (\<lambda>s1. Returned (s1\<lparr>imagedata := None\<rparr>))
        else if mode s = ''text'' then Returned s
        else if mode s = ''transform''
        then Returned (set_activeCanvas (c\<lparr>paths := butlast (paths c)\<rparr>) s)
        else Returned s)
       (\<lambda>s1. let s2 = s1\<lparr>isDown := False\<rparr>
              in Returned (s2\<lparr>invoked := invoked s2 @ [Drawend x y]\<rparr>))"

text \<open>
  The listeners on an event: the move and end listeners return at once unless a gesture
  is on; then the active layer is read (a TypeError when there is none) and the
  coordinates are computed (a TypeError when \<open>getOffsetX\<close> or \<open>getOffsetY\<close> throws).
\<close>

definition with_coordinates ::
  "container \<Rightarrow> event \<Rightarrow> (number \<Rightarrow> number \<Rightarrow> Canvas \<Rightarrow> ArtCanvas \<Rightarrow> ArtCanvas result) \<Rightarrow>
   ArtCanvas \<Rightarrow> ArtCanvas result" where
  "with_coordinates cont ev body s =
     (case activeCanvas s of
        None \<Rightarrow> TypeError s
      | Some c \<Rightarrow>
          (case getOffsetX cont c ev of
             None \<Rightarrow> TypeError s
           | Some x \<Rightarrow>
               (case getOffsetY cont c ev of
                  None \<Rightarrow> TypeError s
                | Some y \<Rightarrow> body x y c s)))"

definition on_start :: "container \<Rightarrow> event \<Rightarrow> ArtCanvas \<Rightarrow> ArtCanvas result" where
  "on_start cont ev s = with_coordinates cont ev start_at s"

definition on_move :: "container \<Rightarrow> event \<Rightarrow> ArtCanvas \<Rightarrow> ArtCanvas result" where
  "on_move cont ev s = (if \<not> isDown s then Returned s else with_coordinates cont ev move_at s)"

definition on_end :: "container \<Rightarrow> event \<Rightarrow> ArtCanvas \<Rightarrow> ArtCanvas result" where
  "on_end cont ev s = (if \<not> isDown s then Returned s else with_coordinates cont ev end_at s)"

text \<open>
  A gesture as the listeners receive it: the event of the pointer-down, the events of
  the moves and the event of the pointer-up. A listener that throws leaves its state
  behind, and the next event is delivered in that state.
\<close>

fun on_moves :: "container \<Rightarrow> event list \<Rightarrow> ArtCanvas \<Rightarrow> ArtCanvas" where
  "on_moves cont [] s = s"
| "on_moves cont (ev # evs) s = on_moves cont evs (state_of (on_move cont ev s))"

definition on_gesture :: "container \<Rightarrow> event \<Rightarrow> event list \<Rightarrow> event \<Rightarrow> ArtCanvas \<Rightarrow> ArtCanvas result" where
  "on_gesture cont down moves up s = on_end cont up (on_moves cont moves (state_of (on_start cont down s)))"

text \<open>
  The events for which \<open>getOffsetX\<close> and \<open>getOffsetY\<close> return: all but the mouse events
  whose \<open>pageX\<close> or \<open>pageY\<close> is 0 (or NaN).
\<close>

definition located :: "event \<Rightarrow> bool" where
  "located ev = (case ev of MouseEvent pageX pageY \<Rightarrow> truthy pageX \<and> truthy pageY | _ \<Rightarrow> True)"

text \<open>
  The same gesture from the point where the coordinates are known, given by the
  coordinates the listeners compute: a pointer-down at one position, pointer-moves at
  a list of positions, a pointer-up at a last position.
\<close>

definition at_position ::
  "(number \<Rightarrow> number \<Rightarrow> Canvas \<Rightarrow> ArtCanvas \<Rightarrow> ArtCanvas result) \<Rightarrow> number \<times> number \<Rightarrow>
   ArtCanvas \<Rightarrow> ArtCanvas result" where
  "at_position body xy s =
     (case activeCanvas s of None \<Rightarrow> TypeError s | Some c \<Rightarrow> body (fst xy) (snd xy) c s)"

definition pointer_down :: "number \<times> number \<Rightarrow> ArtCanvas \<Rightarrow> ArtCanvas result" where
  "pointer_down xy s = at_position start_at xy s"

definition pointer_move :: "number \<times> number \<Rightarrow> ArtCanvas \<Rightarrow> ArtCanvas result" where
  "pointer_move xy s = (if \<not> isDown s then Returned s else at_position move_at xy s)"

definition pointer_up :: "number \<times> number \<Rightarrow> ArtCanvas \<Rightarrow> ArtCanvas result" where
  "pointer_up xy s = (if \<not> isDown s then Returned s else at_position end_at xy s)"

fun pointer_moves :: "(number \<times> number) list \<Rightarrow> ArtCanvas \<Rightarrow> ArtCanvas result" where
  "pointer_moves [] s = Returned s"
| "pointer_moves (xy # xys) s = then_do (pointer_move xy s) (pointer_moves xys)"

definition gesture ::
  "number \<times> number \<Rightarrow> (number \<times> number) list \<Rightarrow> number \<times> number \<Rightarrow> ArtCanvas \<Rightarrow> ArtCanvas result" where
  "gesture down moves up s =
     then_do (then_do (pointer_down down s) (pointer_moves moves)) (pointer_up up)"


text \<open>A sequence of calls of \<open>addLayer\<close> and \<open>removeLayer\<close>, run in order.\<close>

datatype layer_call = AddLayer jsval jsval | RemoveLayer jsval

fun apply_call :: "layer_call \<Rightarrow> ArtCanvas \<Rightarrow> ArtCanvas" where
  "apply_call (AddLayer width height) s = addLayer width height s"
| "apply_call (RemoveLayer layerNumber) s = removeLayer layerNumber s"

fun layer_calls :: "layer_call list \<Rightarrow> ArtCanvas \<Rightarrow> ArtCanvas" where
  "layer_calls [] s = s"
| "layer_calls (c # cs) s = layer_calls cs (apply_call c s)"

text \<open>
  A text input is pending while the current TextStyle has no Font: the state in which
  \<open>drawText\<close> throws.
\<close>

definition font_missing :: "ArtCanvas \<Rightarrow> bool" where
  "font_missing s =
     (case textStyle s of
        None \<Rightarrow> False
      | Some st \<Rightarrow> (case textbox s of None \<Rightarrow> False | Some box \<Rightarrow> getFont st = None))"

text \<open>The invariant behind the layer index: the active layer is the last one.\<close>

definition last_is_active :: "ArtCanvas \<Rightarrow> bool" where
  "last_is_active s = (activeLayer s = int (length (layers s)) - 1)"

text \<open>
  For the examples: a container at the origin of a page that is not scrolled, and a
  host whose font is 8 pixels wide for each character.
\<close>

definition page :: container where
  "page = Container (Fin 0) (Fin 0) (Fin 0) (Fin 0)"


definition fixed_pitch :: "string \<Rightarrow> number" where
  "fixed_pitch t = Fin (8 * real (length t))"

text \<open>
  The matrices the description of the composition names: a translation, a rotation (as
  \<open>transform\<close> builds its rotation matrix), the rotation about a pivot, and the matrix
  of the stored scale and translation.
\<close>

definition translation :: "real \<Rightarrow> real \<Rightarrow> matrix" where
  "translation dx dy = Matrix 1 0 0 1 dx dy"

definition rotation :: "real \<Rightarrow> matrix" where
  "rotation r = Matrix (cos r) (sin r) (- sin r) (cos r) 0 0"

definition rotation_about :: "real \<Rightarrow> real \<Rightarrow> real \<Rightarrow> matrix" where
  "rotation_about cx cy r = mat_mul (mat_mul (translation cx cy) (rotation r)) (translation (- cx) (- cy))"

definition scale_translate :: "real \<Rightarrow> real \<Rightarrow> real \<Rightarrow> real \<Rightarrow> matrix" where
  "scale_translate sx sy tx ty = Matrix sx 0 0 sy tx ty"

text \<open>
  For the gestures: two states of one gesture (the selections, the snapshot, the
  pointer state, the active index and the stored objects of every layer agree), and a
  state in which a figure or transform gesture is on, with its anchor on the list.
\<close>

definition same_gesture :: "ArtCanvas \<Rightarrow> ArtCanvas \<Rightarrow> bool" where
  "same_gesture s s' =
     (mode s' = mode s \<and> figure s' = figure s \<and> transform s' = transform s
      \<and> imagedata s' = imagedata s \<and> isDown s' = isDown s \<and> activeLayer s' = activeLayer s
      \<and> map paths (layers s') = map paths (layers s))"

definition anchored :: "ArtCanvas \<Rightarrow> bool" where
  "anchored s =
     (isDown s \<and> (mode s = ''transform'' \<or> mode s = ''figure'' \<and> imagedata s \<noteq> None)
      \<and> (case activeCanvas s of
            None \<Rightarrow> False
          | Some c \<Rightarrow> paths c \<noteq> [] \<and> (case last (paths c) of PointArray ps p \<Rightarrow> True | _ \<Rightarrow> False)))"

text \<open>
  The shape a figure gesture stores at its end, from the anchor (the Point of the
  pointer-down) and the position of the pointer-up, by kind of figure.
\<close>

definition committed_shape :: "string \<Rightarrow> point \<Rightarrow> number \<times> number \<Rightarrow> path" where
  "committed_shape fig anchor up =
     (if fig = ''rectangle'' then
        Rect (Rectangle (Number (getX anchor)) (Number (getY anchor))
               (Number (getX (getOffsetPoint anchor (Point (Number (fst up)) (Number (snd up))))))
               (Number (getY (getOffsetPoint anchor (Point (Number (fst up)) (Number (snd up)))))))
      else if fig = ''circle'' then
        Circ (Circle (Number (getX anchor)) (Number (getY anchor))
               (Number (getDistance anchor (Point (Number (fst up)) (Number (snd up))))))
      else Ln (Line anchor (Point (Number (fst up)) (Number (snd up)))))"

section \<open>Layers: the active index\<close>

lemma new_ArtCanvas_last_is_active: "last_is_active (new_ArtCanvas metrics canvas width height)"
  by (simp add: last_is_active_def new_ArtCanvas_def Let_def)

lemma addLayer_last_is_active: "last_is_active (addLayer width height s)"
  by (simp add: last_is_active_def addLayer_def Let_def)

lemma valid_index:
  assumes "num_ge (parseInt n) (Fin 0)" and "num_lt (parseInt n) (Fin (real k))"
  shows "to_nat (parseInt n) < k"
proof (cases "parseInt n")
  case (Fin r)
  with assms have "0 \<le> r" "r < real k" by (simp_all add: num_ge_def)
  then have "nat \<lfloor>r\<rfloor> < k" by linarith
  with Fin show ?thesis by (simp add: to_nat_def)
qed (use assms in \<open>simp_all add: num_ge_def\<close>)

lemma length_splice1: "i < length xs \<Longrightarrow> length (splice1 i xs) = length xs - 1"
  by (simp add: splice1_def)

lemma removeLayer_last_is_active: "last_is_active s \<Longrightarrow> last_is_active (removeLayer n s)"
  using valid_index [of n "length (layers s)"]
  by (auto simp: last_is_active_def removeLayer_def validateLayerNumer_def Let_def length_splice1)

lemma layer_calls_last_is_active: "last_is_active s \<Longrightarrow> last_is_active (layer_calls cs s)"
proof (induction cs arbitrary: s)
  case Nil
  then show ?case by simp
next
  case (Cons c cs)
  have "last_is_active (apply_call c s)"
    using Cons.prems by (cases c) (simp_all add: addLayer_last_is_active removeLayer_last_is_active)
  then show ?case by (simp add: Cons.IH)
qed

lemma removeLayer_out_of_range:
  "\<not> (num_ge (parseInt n) (Fin 0) \<and> num_lt (parseInt n) (Fin (real (length (layers s))))) \<Longrightarrow>
   removeLayer n s = s"
  by (auto simp: removeLayer_def validateLayerNumer_def Let_def)

lemma layer_calls_index_in_range:
  assumes "0 < length (layers (layer_calls calls (new_ArtCanvas metrics canvas width height)))"
  shows "0 \<le> activeLayer (layer_calls calls (new_ArtCanvas metrics canvas width height))
    \<and> activeLayer (layer_calls calls (new_ArtCanvas metrics canvas width height))
        < int (length (layers (layer_calls calls (new_ArtCanvas metrics canvas width height))))"
proof -
  have "last_is_active (layer_calls calls (new_ArtCanvas metrics canvas width height))"
    by (rule layer_calls_last_is_active) (rule new_ArtCanvas_last_is_active)
  then show ?thesis
    using assms by (simp add: last_is_active_def)
qed

lemmas layer_defs = new_ArtCanvas_def new_Canvas_def Canvas_clear_def Let_def addLayer_def
  removeLayer_def validateLayerNumer_def num_ge_def num_gt_def to_nat_def trunc_def splice1_def
  plain_notation_def mantissa.simps

lemma removeLayer_integer_out_of_range:
  assumes "k < 0 \<or> int (length (layers s)) \<le> k" "\<bar>k\<bar> < 10 ^ 21"
  shows "removeLayer (Number (Fin (of_int k))) s = s"
proof -
  have "\<bar>real_of_int k\<bar> < 10 ^ 21"
    using assms(2) by (metis of_int_abs of_int_less_iff of_int_numeral of_int_power)
  moreover have "k \<noteq> 0 \<Longrightarrow> 1 \<le> \<bar>real_of_int k\<bar>"
    by (metis abs_zero not_less of_int_abs of_int_le_iff of_int_1 zero_less_abs_iff int_one_le_iff_zero_less)
  then have "k \<noteq> 0 \<Longrightarrow> 1 / 10 ^ 6 \<le> \<bar>real_of_int k\<bar>"
    by (simp add: field_simps)
  ultimately have "plain_notation (of_int k)"
    by (auto simp: plain_notation_def)
  then have "parseInt (Number (Fin (of_int k))) = Fin (of_int k)"
    by (simp add: trunc_def)
  then show ?thesis
    using assms(1) by (intro removeLayer_out_of_range) (auto simp: num_ge_def)
qed

text \<open>
  C1 says that \<open>removeLayer\<close> with an index out of range leaves the layers and the
  active index as they were. \<open>validateLayerNumer\<close> reads its argument with \<open>parseInt\<close>,
  which reads a number as it prints: the index \<open>1e21\<close>, far out of range on an
  ArtCanvas with two layers, prints as \<open>1e+21\<close> and is read as 1, so layer 1 is taken
  out and the active index goes from 1 to 0.

  What holds: the two calls keep the last layer the active one, so after any sequence of
  them on a new ArtCanvas the active index is within \<open>[0, layerCount)\<close> whenever there
  is a layer (\<open>layer_calls_index_in_range\<close>); an argument that \<open>parseInt\<close> reads as NaN
  or as a number outside \<open>[0, layerCount)\<close>, so every integer index out of range below
  \<open>1e21\<close> in magnitude, leaves the state as it was (\<open>removeLayer_out_of_range\<close>,
  \<open>removeLayer_integer_out_of_range\<close>).
\<close>

theorem removeLayer_exponent_notation:
  "length (layers (addLayer NonNumeric NonNumeric (new_ArtCanvas fixed_pitch None NonNumeric NonNumeric))) = 2
   \<and> activeLayer (addLayer NonNumeric NonNumeric (new_ArtCanvas fixed_pitch None NonNumeric NonNumeric)) = 1
   \<and> parseInt (Number (Fin (10 ^ 21))) = Fin 1
   \<and> layers (removeLayer (Number (Fin (10 ^ 21)))
        (addLayer NonNumeric NonNumeric (new_ArtCanvas fixed_pitch None NonNumeric NonNumeric)))
       = [new_Canvas None NonNumeric NonNumeric 2]
   \<and> activeLayer (removeLayer (Number (Fin (10 ^ 21)))
        (addLayer NonNumeric NonNumeric (new_ArtCanvas fixed_pitch None NonNumeric NonNumeric))) = 0"
  by (simp add: layer_defs)

text \<open>
  C9. \<open>addLayer\<close> appends exactly one new layer at the end of the list and makes it the
  active one, whatever the active index was: the index becomes \<open>layerCount - 1\<close>.
\<close>

theorem addLayer_appends_and_activates:
  "layers (addLayer width height s) = layers s @ [new_Canvas None width height (length (layers s) + 2)]
   \<and> activeLayer (addLayer width height s) = int (length (layers (addLayer width height s))) - 1
   \<and> activeCanvas (addLayer width height s) = Some (new_Canvas None width height (length (layers s) + 2))"
  by (simp add: addLayer_def activeCanvas_def Let_def nth_append)


section \<open>Geometry primitives: the constructors, offset and distance\<close>

lemma Point_never_NaN: "\<not> isNaN (getX (Point pointX pointY)) \<and> \<not> isNaN (getY (Point pointX pointY))"
  by (simp add: Point_def Let_def)

lemma getOffsetPoint_finite:
  "getOffsetPoint (MkPoint (Fin ax) (Fin ay)) (MkPoint (Fin bx) (Fin by)) = MkPoint (Fin (bx - ax)) (Fin (by - ay))"
  by (simp add: getOffsetPoint_def Point_def num_sub_def)

lemma getDistance_finite:
  "getDistance (MkPoint (Fin ax) (Fin ay)) (MkPoint (Fin bx) (Fin by)) = Fin (sqrt ((bx - ax)\<^sup>2 + (by - ay)\<^sup>2))"
  by (simp add: getDistance_def getOffsetPoint_finite Math_pow2_def power2_eq_square not_less Let_def)

text \<open>
  C8, as amended. Whatever the arguments, a Point's \<open>x\<close> and \<open>y\<close> are 0 when the argument
  does not parse to a number, the parsed number otherwise, and never NaN; a Rectangle's
  width and height and a Circle's radius are the parsed argument when it is \<open>>= 0\<close> and 0
  otherwise. For all Points \<open>a\<close> and \<open>b\<close>, a coordinate of \<open>getOffsetPoint a b\<close> is the
  difference of the coordinates of \<open>b\<close> and \<open>a\<close> when that difference is a number, and 0
  when it is NaN (the result is again a Point); so for Points with finite coordinates the
  offset is \<open>(b.x - a.x, b.y - a.y)\<close>. The distance is the square root of the sum of the
  squares of the offset's coordinates. All of them are functions of their arguments.
\<close>

theorem geometry_constructors:
  "getX (Point pointX pointY) = (if isNaN (parseFloat pointX) then Fin 0 else parseFloat pointX)
   \<and> getY (Point pointX pointY) = (if isNaN (parseFloat pointY) then Fin 0 else parseFloat pointY)
   \<and> \<not> isNaN (getX (Point pointX pointY)) \<and> \<not> isNaN (getY (Point pointX pointY))
   \<and> getWidth (Rectangle t l w h) = (if num_ge (parseFloat w) (Fin 0) then parseFloat w else Fin 0)
   \<and> getHeight (Rectangle t l w h) = (if num_ge (parseFloat h) (Fin 0) then parseFloat h else Fin 0)
   \<and> getRadius (Circle cx cy r) = (if num_ge (parseFloat r) (Fin 0) then parseFloat r else Fin 0)
   \<and> getX (getOffsetPoint a b) =
        (if isNaN (num_sub (getX b) (getX a)) then Fin 0 else num_sub (getX b) (getX a))
   \<and> getY (getOffsetPoint a b) =
        (if isNaN (num_sub (getY b) (getY a)) then Fin 0 else num_sub (getY b) (getY a))
   \<and> getOffsetPoint (MkPoint (Fin ax) (Fin ay)) (MkPoint (Fin bx) (Fin by)) =
        MkPoint (Fin (bx - ax)) (Fin (by - ay))
   \<and> getDistance a b =
        Math_sqrt (num_add (Math_pow2 (getX (getOffsetPoint a b))) (Math_pow2 (getY (getOffsetPoint a b))))
   \<and> getDistance (MkPoint (Fin ax) (Fin ay)) (MkPoint (Fin bx) (Fin by)) =
        Fin (sqrt ((bx - ax)\<^sup>2 + (by - ay)\<^sup>2))"
  by (simp add: Point_never_NaN getOffsetPoint_finite getDistance_finite)
     (simp add: Point_def Rectangle_def Circle_def getOffsetPoint_def getDistance_def Let_def)

text \<open>
  C8 as stated fails for two Points with the same infinite coordinate, which the
  constructor accepts: the difference of the two coordinates is NaN, and the offset,
  being a Point, has 0 there.
\<close>

theorem offset_of_equal_infinities:
  "getX (getOffsetPoint (Point (Number PInf) (Number (Fin 0))) (Point (Number PInf) (Number (Fin 0)))) = Fin 0
   \<and> num_sub (getX (Point (Number PInf) (Number (Fin 0)))) (getX (Point (Number PInf) (Number (Fin 0)))) = NaN
   \<and> getOffsetPoint (Point (Number PInf) (Number (Fin 0))) (Point (Number PInf) (Number (Fin 0))) \<noteq>
       MkPoint (num_sub (getX (Point (Number PInf) (Number (Fin 0)))) (getX (Point (Number PInf) (Number (Fin 0)))))
               (num_sub (getY (Point (Number PInf) (Number (Fin 0)))) (getY (Point (Number PInf) (Number (Fin 0)))))"
  by (simp add: getOffsetPoint_def Point_def num_sub_def Let_def)

section \<open>The pivot of a transform\<close>

lemma foldl_overwrite: "foldl (\<lambda>acc p. f p) a ps = (if ps = [] then a else f (last ps))"
  by (induction ps arbitrary: a) simp_all

text \<open>
  The inner loop on Points with finite coordinates: the running bounds are the minima
  and maxima with the starting values.
\<close>

lemma bounds_finite:
  "bounds (map (\<lambda>(a, b). MkPoint (Fin a) (Fin b)) xys) (Fin x0, Fin y0, Fin x1, Fin y1) =
     (Fin (fold min (map fst xys) x0), Fin (fold min (map snd xys) y0),
      Fin (fold max (map fst xys) x1), Fin (fold max (map snd xys) y1))"
proof (induction xys arbitrary: x0 y0 x1 y1)
  case Nil
  then show ?case by simp
next
  case (Cons xy xys)
  obtain a b where xy: "xy = (a, b)" by (cases xy)
  have "(if a < x0 then a else x0) = min a x0" "(if b < y0 then b else y0) = min b y0"
    "(if x1 < a then a else x1) = max a x1" "(if y1 < b then b else y1) = max b y1"
    by (simp_all add: min_def max_def)
  then show ?case
    using Cons.IH by (simp add: xy num_gt_def)
qed

lemma center_of_line:
  "center_of m (Ln (Line (MkPoint (Fin x1) (Fin y1)) (MkPoint (Fin x2) (Fin y2)))) =
     (parseInt_num (Fin ((max x1 x2 - min x1 x2) / 2 + min x1 x2)),
      parseInt_num (Fin ((max y1 y2 - min y1 y2) / 2 + min y1 y2)))"
  by (simp add: box_center_def Math_min_def Math_max_def Let_def num_sub_def min_def max_def
      del: parseInt_num.simps)

lemma center_of_stroke:
  "center_of m (PointArray (map (\<lambda>(a, b). MkPoint (Fin a) (Fin b)) xys) (MkPoint (Fin a) (Fin b))) =
     box_center
       (Fin (Min (insert ((2 - 1 / 2 ^ 52) * 2 ^ 1023) (set (map fst xys @ [a])))),
        Fin (Min (insert ((2 - 1 / 2 ^ 52) * 2 ^ 1023) (set (map snd xys @ [b])))),
        Fin (Max (insert 0 (set (map fst xys @ [a])))),
        Fin (Max (insert 0 (set (map snd xys @ [b])))))"
proof -
  have "points_of (map (\<lambda>(a, b). MkPoint (Fin a) (Fin b)) xys) (MkPoint (Fin a) (Fin b)) =
        map (\<lambda>(a, b). MkPoint (Fin a) (Fin b)) (xys @ [(a, b)])"
    by (simp add: points_of_def)
  then show ?thesis
    by (simp add: Number_MAX_VALUE_def bounds_finite Min.set_eq_fold [symmetric] Max.set_eq_fold [symmetric]
        del: map_append)
qed

lemma box_center_finite:
  "box_center (Fin x0, Fin y0, Fin x1, Fin y1) =
     (parseInt_num (Fin ((x1 - x0) / 2 + x0)), parseInt_num (Fin ((y1 - y0) / 2 + y0)))"
  by (simp add: box_center_def num_sub_def del: parseInt_num.simps)

lemma Min_with_bound:
  fixes A :: "real set"
  assumes "finite A" "A \<noteq> {}" "\<forall>x\<in>A. x \<le> u"
  shows "Min (insert u A) = Min A"
  using assms by (simp add: min_absorb2)

lemma Max_with_bound:
  fixes A :: "real set"
  assumes "finite A" "A \<noteq> {}" "\<forall>x\<in>A. l \<le> x"
  shows "Max (insert l A) = Max A"
  using assms by (simp add: max_absorb2)

lemma center_of_stroke_in_range:
  assumes "\<forall>x\<in>set (a # map fst xys). 0 \<le> x \<and> x \<le> (2 - 1 / 2 ^ 52) * 2 ^ 1023"
    and "\<forall>y\<in>set (b # map snd xys). 0 \<le> y \<and> y \<le> (2 - 1 / 2 ^ 52) * 2 ^ 1023"
  shows "center_of m (PointArray (map (\<lambda>(a, b). MkPoint (Fin a) (Fin b)) xys) (MkPoint (Fin a) (Fin b))) =
     (parseInt_num (Fin ((Max (set (a # map fst xys)) - Min (set (a # map fst xys))) / 2
                          + Min (set (a # map fst xys)))),
      parseInt_num (Fin ((Max (set (b # map snd xys)) - Min (set (b # map snd xys))) / 2
                          + Min (set (b # map snd xys)))))"
proof -
  have x: "set (map fst xys @ [a]) = set (a # map fst xys)" and y: "set (map snd xys @ [b]) = set (b # map snd xys)"
    by auto
  have "Min (insert ((2 - 1 / 2 ^ 52) * 2 ^ 1023) (set (a # map fst xys))) = Min (set (a # map fst xys))"
    "Max (insert 0 (set (a # map fst xys))) = Max (set (a # map fst xys))"
    "Min (insert ((2 - 1 / 2 ^ 52) * 2 ^ 1023) (set (b # map snd xys))) = Min (set (b # map snd xys))"
    "Max (insert 0 (set (b # map snd xys))) = Max (set (b # map snd xys))"
    using assms by (intro Min_with_bound Max_with_bound; simp)+
  then show ?thesis
    by (simp only: center_of_stroke x y box_center_finite)
qed

lemma Circle_centre_is_number: "\<not> isNaN (getCenterX (Circle cx cy r)) \<and> \<not> isNaN (getCenterY (Circle cx cy r))"
  by (simp add: Circle_def Let_def)

lemma Point_of_numbers: "\<not> isNaN a \<Longrightarrow> \<not> isNaN b \<Longrightarrow> Point (Number a) (Number b) = MkPoint a b"
  by (simp add: Point_def Let_def)

lemma parseInt_num_is_number: "\<not> isNaN (parseInt_num (Fin r))"
  by simp

lemma getCenterPoint_last:
  "getCenterPoint m (ps @ [p]) = Point (Number (fst (center_of m p))) (Number (snd (center_of m p)))"
  by (simp add: getCenterPoint_def foldl_overwrite split: prod.splits)

text \<open>
  C2, as amended. The pivot that \<open>getCenterPoint\<close> returns is decided by the last object
  in the list alone, whatever comes before it: not by the first object and not by the
  union of all of them. For an empty list it is \<open>(0, 0)\<close>. When the last object is a
  circle, the pivot is its centre. When it is a line between Points with finite
  coordinates, or an array of Points whose coordinates lie in
  \<open>[0, Number.MAX_VALUE]\<close>, each coordinate of the pivot is \<open>parseInt\<close> of the midpoint
  of the bounding box in that coordinate: the midpoint without its fraction when it
  prints in plain notation (it is 0, or at least \<open>1e-6\<close> and below \<open>1e21\<close>).
\<close>

theorem getCenterPoint_of_last:
  "getCenterPoint m [] = MkPoint (Fin 0) (Fin 0)
   \<and> getCenterPoint m (ps @ [p]) = getCenterPoint m [p]
   \<and> getCenterPoint m (ps @ [Circ (Circle cx cy r)]) =
        MkPoint (getCenterX (Circle cx cy r)) (getCenterY (Circle cx cy r))
   \<and> getCenterPoint m (ps @ [Ln (Line (MkPoint (Fin x1) (Fin y1)) (MkPoint (Fin x2) (Fin y2)))]) =
        MkPoint (parseInt_num (Fin ((max x1 x2 - min x1 x2) / 2 + min x1 x2)))
                (parseInt_num (Fin ((max y1 y2 - min y1 y2) / 2 + min y1 y2)))
   \<and> ((\<forall>x\<in>set (a # map fst xys). 0 \<le> x \<and> x \<le> (2 - 1 / 2 ^ 52) * 2 ^ 1023)
        \<and> (\<forall>y\<in>set (b # map snd xys). 0 \<le> y \<and> y \<le> (2 - 1 / 2 ^ 52) * 2 ^ 1023) \<longrightarrow>
        getCenterPoint m
          (ps @ [PointArray (map (\<lambda>(x, y). MkPoint (Fin x) (Fin y)) xys) (MkPoint (Fin a) (Fin b))]) =
          MkPoint
            (parseInt_num (Fin ((Max (set (a # map fst xys)) - Min (set (a # map fst xys))) / 2
                                 + Min (set (a # map fst xys)))))
            (parseInt_num (Fin ((Max (set (b # map snd xys)) - Min (set (b # map snd xys))) / 2
                                 + Min (set (b # map snd xys))))))
   \<and> (plain_notation v \<longrightarrow> parseInt_num (Fin v) = Fin (trunc v))"
proof -
  have "getCenterPoint m [] = MkPoint (Fin 0) (Fin 0)"
    by (simp add: getCenterPoint_def Point_def)
  moreover have "getCenterPoint m (ps @ [p]) = getCenterPoint m [p]"
    by (simp add: getCenterPoint_def foldl_overwrite)
  moreover have "getCenterPoint m (ps @ [Circ (Circle cx cy r)]) =
      MkPoint (getCenterX (Circle cx cy r)) (getCenterY (Circle cx cy r))"
    using Circle_centre_is_number [of cx cy r] by (simp add: getCenterPoint_last Point_of_numbers)
  moreover have "getCenterPoint m (ps @ [Ln (Line (MkPoint (Fin x1) (Fin y1)) (MkPoint (Fin x2) (Fin y2)))]) =
      MkPoint (parseInt_num (Fin ((max x1 x2 - min x1 x2) / 2 + min x1 x2)))
              (parseInt_num (Fin ((max y1 y2 - min y1 y2) / 2 + min y1 y2)))"
    unfolding getCenterPoint_last center_of_line fst_conv snd_conv
    by (rule Point_of_numbers) (rule parseInt_num_is_number)+
  moreover have "getCenterPoint m
        (ps @ [PointArray (map (\<lambda>(x, y). MkPoint (Fin x) (Fin y)) xys) (MkPoint (Fin a) (Fin b))]) =
      MkPoint
        (parseInt_num (Fin ((Max (set (a # map fst xys)) - Min (set (a # map fst xys))) / 2
                             + Min (set (a # map fst xys)))))
        (parseInt_num (Fin ((Max (set (b # map snd xys)) - Min (set (b # map snd xys))) / 2
                             + Min (set (b # map snd xys)))))"
    if "\<forall>x\<in>set (a # map fst xys). 0 \<le> x \<and> x \<le> (2 - 1 / 2 ^ 52) * 2 ^ 1023"
      "\<forall>y\<in>set (b # map snd xys). 0 \<le> y \<and> y \<le> (2 - 1 / 2 ^ 52) * 2 ^ 1023"
    unfolding getCenterPoint_last center_of_stroke_in_range [OF that] fst_conv snd_conv
    by (rule Point_of_numbers) (rule parseInt_num_is_number)+
  moreover have "parseInt_num (Fin v) = Fin (trunc v)" if "plain_notation v"
    using that by simp
  ultimately show ?thesis
    by blast
qed

lemmas example_defs = new_ArtCanvas_def new_Canvas_def Canvas_clear_def Let_def
  num_ge_def num_gt_def to_nat_def trunc_def activeCanvas_def set_activeCanvas_def
  toLowerCase_def toLower_char_def plain_notation_def mantissa.simps

text \<open>
  A layer that holds a circle and then the stroke through \<open>(0, 0)\<close>, \<open>(4, 2)\<close> and
  \<open>(1, 7)\<close>: the bounding box of the stroke has its midpoint at \<open>(2, 3.5)\<close>, and the
  pivot is \<open>(2, 3)\<close>.
\<close>

theorem getCenterPoint_of_last_witness:
  "getCenterPoint fixed_pitch
     [Circ (Circle (Number (Fin 10)) (Number (Fin 10)) (Number (Fin 1))),
      PointArray [MkPoint (Fin 0) (Fin 0), MkPoint (Fin 4) (Fin 2)] (MkPoint (Fin 1) (Fin 7))]
     = MkPoint (Fin 2) (Fin 3)
   \<and> parseInt_num (Fin (7 / 2)) = Fin 3"
proof -
  have x: "\<forall>x\<in>set (1 # map fst [(0 :: real, 0 :: real), (4, 2)]). 0 \<le> x \<and> x \<le> (2 - 1 / 2 ^ 52) * (2 ^ 1023 :: real)"
    by simp
  have y: "\<forall>y\<in>set (7 # map snd [(0 :: real, 0 :: real), (4, 2)]). 0 \<le> y \<and> y \<le> (2 - 1 / 2 ^ 52) * (2 ^ 1023 :: real)"
    by simp
  have v: "plain_notation (7 / 2)"
    by (simp add: plain_notation_def)
  note inst = getCenterPoint_of_last [of fixed_pitch
      "[Circ (Circle (Number (Fin 10)) (Number (Fin 10)) (Number (Fin 1)))]" _ _ _ _ _ _ _ _
      1 "[(0 :: real, 0 :: real), (4, 2)]" 7 "7 / 2"]
  from inst x y have "getCenterPoint fixed_pitch
     ([Circ (Circle (Number (Fin 10)) (Number (Fin 10)) (Number (Fin 1)))] @
      [PointArray (map (\<lambda>(x, y). MkPoint (Fin x) (Fin y)) [(0 :: real, 0 :: real), (4, 2)]) (MkPoint (Fin 1) (Fin 7))])
     = MkPoint
         (parseInt_num (Fin ((Max (set (1 # map fst [(0 :: real, 0 :: real), (4, 2)])) - Min (set (1 # map fst [(0 :: real, 0 :: real), (4, 2)]))) / 2
                               + Min (set (1 # map fst [(0 :: real, 0 :: real), (4, 2)])))))
         (parseInt_num (Fin ((Max (set (7 # map snd [(0 :: real, 0 :: real), (4, 2)])) - Min (set (7 # map snd [(0 :: real, 0 :: real), (4, 2)]))) / 2
                               + Min (set (7 # map snd [(0 :: real, 0 :: real), (4, 2)])))))"
    by blast
  moreover from inst v have "parseInt_num (Fin (7 / 2)) = Fin (trunc (7 / 2))"
    by blast
  moreover have "\<lfloor>7 / 2 :: real\<rfloor> = 3"
    by linarith
  ultimately show ?thesis
    by (simp add: trunc_def plain_notation_def)
qed

text \<open>
  C2 as stated fails for two circles: the pivot is the centre of the second one,
  \<open>(10, 10)\<close>, while the centre of the first one is \<open>(0, 0)\<close>. It fails for the line
  from \<open>(0, 0)\<close> to \<open>(1, 1)\<close> alone on the list: the centre of its bounding box is
  \<open>(0.5, 0.5)\<close>, the pivot \<open>(0, 0)\<close>.
\<close>

theorem getCenterPoint_not_first:
  "getCenterPoint fixed_pitch
     [Circ (Circle (Number (Fin 0)) (Number (Fin 0)) (Number (Fin 1))),
      Circ (Circle (Number (Fin 10)) (Number (Fin 10)) (Number (Fin 1)))] = MkPoint (Fin 10) (Fin 10)
   \<and> center_of fixed_pitch (Circ (Circle (Number (Fin 0)) (Number (Fin 0)) (Number (Fin 1)))) = (Fin 0, Fin 0)
   \<and> getCenterPoint fixed_pitch
       [Ln (Line (Point (Number (Fin 0)) (Number (Fin 0))) (Point (Number (Fin 1)) (Number (Fin 1))))]
       = MkPoint (Fin 0) (Fin 0)"
  by (simp add: getCenterPoint_def Point_def Circle_def num_ge_def Let_def box_center_def Math_min_def
      Math_max_def num_sub_def trunc_def plain_notation_def)

text \<open>
  The rectangle is not part of C2 as amended. A figure gesture from \<open>(10, 20)\<close> to
  \<open>(60, 40)\<close> stores \<open>new Rectangle(10, 20, 50, 20)\<close>, whose first argument the
  constructor takes as top and \<open>draw\<close> passes to \<open>context.rect\<close> as \<open>x\<close>: the rectangle
  is drawn from \<open>(10, 20)\<close>, 50 wide and 20 high, with its centre at \<open>(35, 30)\<close>, while
  \<open>getCenterPoint\<close> takes the second argument as \<open>x\<close> and returns \<open>(45, 20)\<close>.
\<close>

lemma getCenterPoint_of_gesture_rectangle:
  "committed_shape ''rectangle'' (Point (Number (Fin 10)) (Number (Fin 20))) (Fin 60, Fin 40) =
     Rect (Rectangle (Number (Fin 10)) (Number (Fin 20)) (Number (Fin 50)) (Number (Fin 20)))
   \<and> draw_path (Rect (Rectangle (Number (Fin 10)) (Number (Fin 20)) (Number (Fin 50)) (Number (Fin 20)))) =
       [RectPath (Fin 10) (Fin 20) (Fin 50) (Fin 20)]
   \<and> getCenterPoint fixed_pitch
       [Rect (Rectangle (Number (Fin 10)) (Number (Fin 20)) (Number (Fin 50)) (Number (Fin 20)))]
       = MkPoint (Fin 45) (Fin 20)"
  by (simp add: committed_shape_def getCenterPoint_def Point_def Rectangle_def num_ge_def Let_def
      getOffsetPoint_def num_sub_def trunc_def plain_notation_def)

section \<open>Mode and figure validation\<close>







text \<open>
  With a TextStyle that has no Font (\<open>new TextStyle(null, "black")\<close> passes
  \<open>setTextStyle\<close>) and a text input pending, \<open>setMode\<close> throws in \<open>drawText\<close>, before
  the callback: here in the text mode after a pointer-down at \<open>(10, 10)\<close>.
\<close>

lemma setMode_throws_without_font:
  "setMode ''bogus''
     (state_of (on_start (Container (Fin 0) (Fin 0) (Fin 0) (Fin 0)) (MouseEvent (Fin 10) (Fin 10))
        (setTextStyle (TextStyle None ''black'')
           (state_of (setMode ''text'' (new_ArtCanvas fixed_pitch None NonNumeric NonNumeric))))))
   = TypeError
     (state_of (on_start (Container (Fin 0) (Fin 0) (Fin 0) (Fin 0)) (MouseEvent (Fin 10) (Fin 10))
        (setTextStyle (TextStyle None ''black'')
           (state_of (setMode ''text'' (new_ArtCanvas fixed_pitch None NonNumeric NonNumeric))))))
   \<and> invoked
     (state_of (on_start (Container (Fin 0) (Fin 0) (Fin 0) (Fin 0)) (MouseEvent (Fin 10) (Fin 10))
        (setTextStyle (TextStyle None ''black'')
           (state_of (setMode ''text'' (new_ArtCanvas fixed_pitch None NonNumeric NonNumeric))))))
     = [Addlayer 1, Changemode ''text'']
   \<and> font_missing
     (state_of (on_start (Container (Fin 0) (Fin 0) (Fin 0) (Fin 0)) (MouseEvent (Fin 10) (Fin 10))
        (setTextStyle (TextStyle None ''black'')
           (state_of (setMode ''text'' (new_ArtCanvas fixed_pitch None NonNumeric NonNumeric))))))"
  by (simp add: example_defs setMode_def drawText_def then_do_def setTextStyle_def addLayer_def
      on_start_def with_coordinates_def start_at_def createTextbox_def getOffsetX_def getOffsetY_def
      truthy_def clamp_offset_def num_sub_def Point_def font_missing_def)

section \<open>The transform amounts\<close>

lemma transforms_Canvas_transform:
  "transforms (Canvas_transform m ty am c) = store_amounts (toLowerCase ty) (wrap_amounts am) (transforms c)"
  by (simp add: Canvas_transform_def Canvas_transform_set_def ctx_restore_def Canvas_draw_def paint_def
      ctx_save_def Canvas_clear_def Let_def split: list.splits)

lemma rotate_degrees: "num_div (num_mul (Fin d) Math_PI) (Fin 180) = Fin (d * pi / 180)"
  by (simp add: Math_PI_def)

text \<open>
  C5. Whatever the amounts stored before: \<open>transform\<close> with kind translate (scale) and
  at least two amounts that both parse to a number replaces \<open>translate.x\<close> and
  \<open>translate.y\<close> (\<open>scale.x\<close> and \<open>scale.y\<close>) by exactly these numbers and leaves the
  other amounts; with kind rotate and a first amount that parses to a number it
  replaces the rotation by the amount times \<open>\<pi> / 180\<close>; with too few amounts, an amount
  that does not parse to a number, or another kind, the amounts stay as they were. The
  kind is read in lower case, and an argument that is not an array counts as an array
  of one amount.
\<close>

theorem transform_stores_amounts:
  "(toLowerCase ty = ''translate'' \<and> 2 \<le> length (wrap_amounts am)
      \<and> \<not> isNaN (parseFloat (wrap_amounts am ! 0)) \<and> \<not> isNaN (parseFloat (wrap_amounts am ! 1)) \<longrightarrow>
      transforms (Canvas_transform m ty am c) =
        (transforms c)\<lparr>translate_x := parseFloat (wrap_amounts am ! 0),
                       translate_y := parseFloat (wrap_amounts am ! 1)\<rparr>)
   \<and> (toLowerCase ty = ''scale'' \<and> 2 \<le> length (wrap_amounts am)
      \<and> \<not> isNaN (parseFloat (wrap_amounts am ! 0)) \<and> \<not> isNaN (parseFloat (wrap_amounts am ! 1)) \<longrightarrow>
      transforms (Canvas_transform m ty am c) =
        (transforms c)\<lparr>scale_x := parseFloat (wrap_amounts am ! 0),
                       scale_y := parseFloat (wrap_amounts am ! 1)\<rparr>)
   \<and> (toLowerCase ty = ''rotate'' \<and> 1 \<le> length (wrap_amounts am)
      \<and> \<not> isNaN (parseFloat (wrap_amounts am ! 0)) \<longrightarrow>
      transforms (Canvas_transform m ty am c) =
        (transforms c)\<lparr>rotate_r := num_div (num_mul (parseFloat (wrap_amounts am ! 0)) Math_PI) (Fin 180)\<rparr>)
   \<and> (toLowerCase ty = ''rotate'' \<and> 1 \<le> length (wrap_amounts am)
      \<and> parseFloat (wrap_amounts am ! 0) = Fin d \<longrightarrow>
      rotate_r (transforms (Canvas_transform m ty am c)) = Fin (d * pi / 180))
   \<and> ((toLowerCase ty = ''translate'' \<or> toLowerCase ty = ''scale'')
        \<and> (length (wrap_amounts am) < 2 \<or> isNaN (parseFloat (wrap_amounts am ! 0))
            \<or> isNaN (parseFloat (wrap_amounts am ! 1))) \<longrightarrow>
      transforms (Canvas_transform m ty am c) = transforms c)
   \<and> (toLowerCase ty = ''rotate''
        \<and> (length (wrap_amounts am) < 1 \<or> isNaN (parseFloat (wrap_amounts am ! 0))) \<longrightarrow>
      transforms (Canvas_transform m ty am c) = transforms c)
   \<and> (toLowerCase ty \<notin> {''translate'', ''scale'', ''rotate''} \<longrightarrow>
      transforms (Canvas_transform m ty am c) = transforms c)"
  unfolding transforms_Canvas_transform
  by (auto simp: store_amounts_def Let_def rotate_degrees)

text \<open>
  On a new layer: a translation by \<open>(5, 7)\<close>, a scaling by \<open>(2, 1)\<close> (the kind in upper
  case), a rotation by 90 degrees (the amount not in an array), and three calls that
  change nothing: one amount for a translation, an amount that is not a number, and the
  kind skew.
\<close>

theorem transform_stores_amounts_witness:
  "transforms (Canvas_transform fixed_pitch ''translate'' (Array [Number (Fin 5), Number (Fin 7)])
       (new_Canvas None NonNumeric NonNumeric 2))
     = initial_transforms\<lparr>translate_x := Fin 5, translate_y := Fin 7\<rparr>
   \<and> transforms (Canvas_transform fixed_pitch ''SCALE'' (Array [Number (Fin 2), Number (Fin 1)])
       (new_Canvas None NonNumeric NonNumeric 2))
     = initial_transforms\<lparr>scale_x := Fin 2, scale_y := Fin 1\<rparr>
   \<and> rotate_r (transforms (Canvas_transform fixed_pitch ''rotate'' (Single (Number (Fin 90)))
       (new_Canvas None NonNumeric NonNumeric 2)))
     = Fin (pi / 2)
   \<and> transforms (Canvas_transform fixed_pitch ''translate'' (Array [Number (Fin 5)])
       (new_Canvas None NonNumeric NonNumeric 2))
     = initial_transforms
   \<and> transforms (Canvas_transform fixed_pitch ''rotate'' (Array [NonNumeric])
       (new_Canvas None NonNumeric NonNumeric 2))
     = initial_transforms
   \<and> transforms (Canvas_transform fixed_pitch ''skew'' (Array [Number (Fin 1), Number (Fin 2)])
       (new_Canvas None NonNumeric NonNumeric 2))
     = initial_transforms"
  using
    transform_stores_amounts [of "''translate''" "Array [Number (Fin 5), Number (Fin 7)]" fixed_pitch
      "new_Canvas None NonNumeric NonNumeric 2" 0]
    transform_stores_amounts [of "''SCALE''" "Array [Number (Fin 2), Number (Fin 1)]" fixed_pitch
      "new_Canvas None NonNumeric NonNumeric 2" 0]
    transform_stores_amounts [of "''rotate''" "Single (Number (Fin 90))" fixed_pitch
      "new_Canvas None NonNumeric NonNumeric 2" 90]
    transform_stores_amounts [of "''translate''" "Array [Number (Fin 5)]" fixed_pitch
      "new_Canvas None NonNumeric NonNumeric 2" 0]
    transform_stores_amounts [of "''rotate''" "Array [NonNumeric]" fixed_pitch
      "new_Canvas None NonNumeric NonNumeric 2" 0]
    transform_stores_amounts [of "''skew''" "Array [Number (Fin 1), Number (Fin 2)]" fixed_pitch
      "new_Canvas None NonNumeric NonNumeric 2" 0]
  by (simp add: wrap_amounts_def toLowerCase_def toLower_char_def new_Canvas_def Canvas_clear_def Let_def
      num_gt_def rotate_degrees)


section \<open>The order of composition\<close>

lemma mat_mul_identity [simp]: "mat_mul identity_matrix n = n"
  by (cases n) (simp add: identity_matrix_def)

lemma set_matrix_scale:
  "t = ''translate'' \<or> t = ''scale'' \<Longrightarrow>
   set_matrix t (Fin cx) (Fin cy)
     \<lparr>translate_x = Fin tx, translate_y = Fin ty, scale_x = Fin sx, scale_y = Fin sy,
      skew_x = kx, skew_y = ky, rotate_r = Fin r\<rparr> m =
   mat_mul (rotation_about cx cy r) (scale_translate sx sy tx ty)"
  by (auto simp: set_matrix_def ctx_transform_def ctx_setTransform_def rotation_about_def translation_def
      rotation_def scale_translate_def Let_def)

lemma set_matrix_rotate:
  "set_matrix ''rotate'' (Fin cx) (Fin cy)
     \<lparr>translate_x = Fin tx, translate_y = Fin ty, scale_x = Fin sx, scale_y = Fin sy,
      skew_x = kx, skew_y = ky, rotate_r = Fin r\<rparr> m =
   mat_mul (scale_translate sx sy tx ty) (rotation_about cx cy r)"
  by (simp add: set_matrix_def ctx_transform_def ctx_setTransform_def rotation_about_def translation_def
      rotation_def scale_translate_def Let_def algebra_simps)

lemma lower_kinds [simp]: "toLowerCase ''translate'' = ''translate''" "toLowerCase ''scale'' = ''scale''"
  "toLowerCase ''rotate'' = ''rotate''"
  by (simp_all add: toLowerCase_def toLower_char_def)

lemma ctm_transform_set:
  "ctm (Canvas_transform_set m ty am c) =
     set_matrix (toLowerCase ty) (getX (getCenterPoint m (paths c))) (getY (getCenterPoint m (paths c)))
       (store_amounts (toLowerCase ty) (wrap_amounts am) (transforms c)) (ctm c)"
  by (simp add: Canvas_transform_set_def Let_def ctx_save_def Canvas_clear_def)

lemma paths_Canvas_transform [simp]: "paths (Canvas_transform m ty am c) = paths c"
  by (simp add: Canvas_transform_def Canvas_transform_set_def ctx_restore_def Canvas_draw_def paint_def
      ctx_save_def Canvas_clear_def Let_def split: list.splits)

lemma scale_then_rotate:
  assumes "getCenterPoint m (paths c) = MkPoint (Fin cx) (Fin cy)" "transforms c = initial_transforms"
  shows "ctm (Canvas_transform_set m ''rotate'' (Array [Number (Fin 90)])
               (Canvas_transform m ''scale'' (Array [Number (Fin 2), Number (Fin 2)]) c))
         = Matrix 0 2 (- 2) 0 (2 * (cx + cy)) (2 * (cy - cx))"
  using assms
  by (simp add: ctm_transform_set transforms_Canvas_transform store_amounts_def wrap_amounts_def
      initial_transforms_def Let_def rotate_degrees set_matrix_rotate scale_translate_def rotation_about_def
      translation_def rotation_def)

lemma rotate_then_scale:
  assumes "getCenterPoint m (paths c) = MkPoint (Fin cx) (Fin cy)" "transforms c = initial_transforms"
  shows "ctm (Canvas_transform_set m ''scale'' (Array [Number (Fin 2), Number (Fin 2)])
               (Canvas_transform m ''rotate'' (Array [Number (Fin 90)]) c))
         = Matrix 0 2 (- 2) 0 (cx + cy) (cy - cx)"
  using assms
  by (simp add: ctm_transform_set transforms_Canvas_transform store_amounts_def wrap_amounts_def
      initial_transforms_def Let_def rotate_degrees set_matrix_scale scale_translate_def rotation_about_def
      translation_def rotation_def)


lemma surface_Canvas_transform:
  "surface (Canvas_transform m ty am c) =
     map (\<lambda>d. (ctm (Canvas_transform_set m ty am c), d)) (concat (map draw_path (paths c)))"
  by (simp add: Canvas_transform_def Canvas_transform_set_def ctx_restore_def Canvas_draw_def paint_def
      ctx_save_def Canvas_clear_def Let_def split: list.splits)

text \<open>
  C4, as amended. With a finite pivot \<open>(cx, cy)\<close> and finite stored amounts, the matrix
  that \<open>transform\<close> sets and draws every object with is, for translate and for scale,
  the rotation about the pivot by the stored angle followed (on the right) by the
  matrix of scale and translation with the new amounts, and for rotate the matrix of
  the stored scale and translation followed by the rotation about the pivot by the new
  angle. From the initial amounts, scale \<open>(2, 2)\<close> then rotate 90 gives a matrix
  different from rotate 90 then scale \<open>(2, 2)\<close> exactly when the pivot is not the
  origin, and then the two map the pixel \<open>(0, 0)\<close> to different places.
\<close>

theorem composition_order:
  assumes "getCenterPoint m (paths c) = MkPoint (Fin cx) (Fin cy)"
    and "transforms c =
           \<lparr>translate_x = Fin tx, translate_y = Fin ty, scale_x = Fin sx, scale_y = Fin sy,
            skew_x = kx, skew_y = ky, rotate_r = Fin r\<rparr>"
  shows "ctm (Canvas_transform_set m ''translate'' (Array [Number (Fin a1), Number (Fin a2)]) c) =
           mat_mul (rotation_about cx cy r) (scale_translate sx sy a1 a2)
    \<and> ctm (Canvas_transform_set m ''scale'' (Array [Number (Fin a1), Number (Fin a2)]) c) =
           mat_mul (rotation_about cx cy r) (scale_translate a1 a2 tx ty)
    \<and> ctm (Canvas_transform_set m ''rotate'' (Array [Number (Fin a1)]) c) =
           mat_mul (scale_translate sx sy tx ty) (rotation_about cx cy (a1 * pi / 180))
    \<and> surface (Canvas_transform m kind am c) =
           map (\<lambda>d. (ctm (Canvas_transform_set m kind am c), d)) (concat (map draw_path (paths c)))
    \<and> (transforms c = initial_transforms \<longrightarrow>
         (ctm (Canvas_transform_set m ''rotate'' (Array [Number (Fin 90)])
                 (Canvas_transform m ''scale'' (Array [Number (Fin 2), Number (Fin 2)]) c))
          \<noteq> ctm (Canvas_transform_set m ''scale'' (Array [Number (Fin 2), Number (Fin 2)])
                 (Canvas_transform m ''rotate'' (Array [Number (Fin 90)]) c)))
         = (cx \<noteq> 0 \<or> cy \<noteq> 0))
    \<and> (transforms c = initial_transforms \<longrightarrow>
         (apply_matrix
            (ctm (Canvas_transform_set m ''rotate'' (Array [Number (Fin 90)])
                 (Canvas_transform m ''scale'' (Array [Number (Fin 2), Number (Fin 2)]) c))) (0, 0)
          \<noteq> apply_matrix
            (ctm (Canvas_transform_set m ''scale'' (Array [Number (Fin 2), Number (Fin 2)])
                 (Canvas_transform m ''rotate'' (Array [Number (Fin 90)]) c))) (0, 0))
         = (cx \<noteq> 0 \<or> cy \<noteq> 0))"
proof -
  have kinds: "ctm (Canvas_transform_set m ''translate'' (Array [Number (Fin a1), Number (Fin a2)]) c) =
           mat_mul (rotation_about cx cy r) (scale_translate sx sy a1 a2)"
    "ctm (Canvas_transform_set m ''scale'' (Array [Number (Fin a1), Number (Fin a2)]) c) =
           mat_mul (rotation_about cx cy r) (scale_translate a1 a2 tx ty)"
    "ctm (Canvas_transform_set m ''rotate'' (Array [Number (Fin a1)]) c) =
           mat_mul (scale_translate sx sy tx ty) (rotation_about cx cy (a1 * pi / 180))"
    using assms
    by (simp_all add: ctm_transform_set store_amounts_def wrap_amounts_def Let_def rotate_degrees
        set_matrix_rotate set_matrix_scale)
  have eq: "(2 * (cx + cy) = cx + cy \<and> 2 * (cy - cx) = cy - cx) = (cx = 0 \<and> cy = 0)"
    by auto
  then have order: "transforms c = initial_transforms \<longrightarrow>
         (ctm (Canvas_transform_set m ''rotate'' (Array [Number (Fin 90)])
                 (Canvas_transform m ''scale'' (Array [Number (Fin 2), Number (Fin 2)]) c))
          \<noteq> ctm (Canvas_transform_set m ''scale'' (Array [Number (Fin 2), Number (Fin 2)])
                 (Canvas_transform m ''rotate'' (Array [Number (Fin 90)]) c)))
         = (cx \<noteq> 0 \<or> cy \<noteq> 0)"
    using assms(1) by (auto simp: scale_then_rotate rotate_then_scale)
  from eq have pixel: "transforms c = initial_transforms \<longrightarrow>
         (apply_matrix
            (ctm (Canvas_transform_set m ''rotate'' (Array [Number (Fin 90)])
                 (Canvas_transform m ''scale'' (Array [Number (Fin 2), Number (Fin 2)]) c))) (0, 0)
          \<noteq> apply_matrix
            (ctm (Canvas_transform_set m ''scale'' (Array [Number (Fin 2), Number (Fin 2)])
                 (Canvas_transform m ''rotate'' (Array [Number (Fin 90)]) c))) (0, 0))
         = (cx \<noteq> 0 \<or> cy \<noteq> 0)"
    using assms(1) by (auto simp: scale_then_rotate rotate_then_scale)
  from kinds order pixel show ?thesis
    by (simp only: surface_Canvas_transform simp_thms)
qed

text \<open>
  A layer with one circle around \<open>(10, 10)\<close>, the pivot: scale then rotate maps the
  origin to \<open>(40, 0)\<close>, rotate then scale maps it to \<open>(20, 0)\<close>.
\<close>

theorem composition_order_witness:
  "ctm (Canvas_transform_set fixed_pitch ''rotate'' (Array [Number (Fin 90)])
          (Canvas_transform fixed_pitch ''scale'' (Array [Number (Fin 2), Number (Fin 2)])
             ((new_Canvas None NonNumeric NonNumeric 2)
                \<lparr>paths := [Circ (Circle (Number (Fin 10)) (Number (Fin 10)) (Number (Fin 5)))]\<rparr>)))
     = Matrix 0 2 (- 2) 0 40 0
   \<and> ctm (Canvas_transform_set fixed_pitch ''scale'' (Array [Number (Fin 2), Number (Fin 2)])
          (Canvas_transform fixed_pitch ''rotate'' (Array [Number (Fin 90)])
             ((new_Canvas None NonNumeric NonNumeric 2)
                \<lparr>paths := [Circ (Circle (Number (Fin 10)) (Number (Fin 10)) (Number (Fin 5)))]\<rparr>)))
     = Matrix 0 2 (- 2) 0 20 0
   \<and> ctm (Canvas_transform_set fixed_pitch ''rotate'' (Array [Number (Fin 90)])
          (Canvas_transform fixed_pitch ''scale'' (Array [Number (Fin 2), Number (Fin 2)])
             ((new_Canvas None NonNumeric NonNumeric 2)
                \<lparr>paths := [Circ (Circle (Number (Fin 10)) (Number (Fin 10)) (Number (Fin 5)))]\<rparr>)))
     \<noteq> ctm (Canvas_transform_set fixed_pitch ''scale'' (Array [Number (Fin 2), Number (Fin 2)])
          (Canvas_transform fixed_pitch ''rotate'' (Array [Number (Fin 90)])
             ((new_Canvas None NonNumeric NonNumeric 2)
                \<lparr>paths := [Circ (Circle (Number (Fin 10)) (Number (Fin 10)) (Number (Fin 5)))]\<rparr>)))"
proof -
  let ?c = "(new_Canvas None NonNumeric NonNumeric 2)
              \<lparr>paths := [Circ (Circle (Number (Fin 10)) (Number (Fin 10)) (Number (Fin 5)))]\<rparr>"
  have pivot: "getCenterPoint fixed_pitch (paths ?c) = MkPoint (Fin 10) (Fin 10)"
    by (simp add: new_Canvas_def Canvas_clear_def Let_def getCenterPoint_def Circle_def Point_def
        num_ge_def)
  have stored: "transforms ?c =
      \<lparr>translate_x = Fin 0, translate_y = Fin 0, scale_x = Fin 1, scale_y = Fin 1,
       skew_x = Fin 0, skew_y = Fin 0, rotate_r = Fin 0\<rparr>"
    by (simp add: new_Canvas_def Canvas_clear_def Let_def initial_transforms_def)
  have initial: "transforms ?c = initial_transforms"
    by (simp add: new_Canvas_def Canvas_clear_def Let_def)
  from composition_order [OF pivot stored, of 0 0 "''scale''" "Array []"] initial
  have "ctm (Canvas_transform_set fixed_pitch ''rotate'' (Array [Number (Fin 90)])
          (Canvas_transform fixed_pitch ''scale'' (Array [Number (Fin 2), Number (Fin 2)]) ?c))
     \<noteq> ctm (Canvas_transform_set fixed_pitch ''scale'' (Array [Number (Fin 2), Number (Fin 2)])
          (Canvas_transform fixed_pitch ''rotate'' (Array [Number (Fin 90)]) ?c))"
    by simp
  then show ?thesis
    by (simp add: scale_then_rotate [OF pivot initial] rotate_then_scale [OF pivot initial])
qed

text \<open>
  C4 as stated fails on a new layer, which has the initial amounts and no object, so
  the pivot \<open>(0, 0)\<close>: both orders give the same matrix.
\<close>

theorem same_mapping_without_objects:
  "transforms (new_Canvas None (Number (Fin 300)) (Number (Fin 300)) 2) = initial_transforms
   \<and> ctm (Canvas_transform_set fixed_pitch ''rotate'' (Array [Number (Fin 90)])
          (Canvas_transform fixed_pitch ''scale'' (Array [Number (Fin 2), Number (Fin 2)])
             (new_Canvas None (Number (Fin 300)) (Number (Fin 300)) 2)))
     = ctm (Canvas_transform_set fixed_pitch ''scale'' (Array [Number (Fin 2), Number (Fin 2)])
          (Canvas_transform fixed_pitch ''rotate'' (Array [Number (Fin 90)])
             (new_Canvas None (Number (Fin 300)) (Number (Fin 300)) 2)))"
proof -
  have c: "getCenterPoint fixed_pitch (paths (new_Canvas None (Number (Fin 300)) (Number (Fin 300)) 2))
        = MkPoint (Fin 0) (Fin 0)"
    "transforms (new_Canvas None (Number (Fin 300)) (Number (Fin 300)) 2) = initial_transforms"
    by (simp_all add: new_Canvas_def Canvas_clear_def Let_def getCenterPoint_def Point_def)
  show ?thesis
    by (simp add: scale_then_rotate [OF c] rotate_then_scale [OF c] c)
qed



section \<open>Gestures\<close>

lemma same_gesture_refl: "same_gesture s s"
  by (simp add: same_gesture_def)

lemma same_gesture_trans: "same_gesture s s' \<Longrightarrow> same_gesture s' s'' \<Longrightarrow> same_gesture s s''"
  by (simp add: same_gesture_def)

lemma activeCanvas_paths:
  assumes "activeCanvas s = Some c"
  shows "nat (activeLayer s) < length (layers s)" "map paths (layers s) ! nat (activeLayer s) = paths c"
  using assms by (auto simp: activeCanvas_def split: if_splits)

lemma same_gesture_active:
  assumes "same_gesture s s'" "activeCanvas s = Some c"
  shows "\<exists>c'. activeCanvas s' = Some c' \<and> paths c' = paths c"
proof -
  have len: "length (layers s') = length (layers s)"
    using assms(1) by (metis same_gesture_def length_map)
  have i: "0 \<le> activeLayer s" "activeLayer s < int (length (layers s))" "c = layers s ! nat (activeLayer s)"
    using assms(2) by (auto simp: activeCanvas_def split: if_splits)
  have "map paths (layers s') ! nat (activeLayer s) = map paths (layers s) ! nat (activeLayer s)"
    using assms(1) by (simp add: same_gesture_def)
  then have "paths (layers s' ! nat (activeLayer s)) = paths c"
    using i len by simp
  then show ?thesis
    using assms(1) i len by (simp add: activeCanvas_def same_gesture_def)
qed

lemma same_gesture_anchored: "anchored s \<Longrightarrow> same_gesture s s' \<Longrightarrow> anchored s'"
proof -
  assume a: "anchored s" and g: "same_gesture s s'"
  from a obtain c where c: "activeCanvas s = Some c"
    by (auto simp: anchored_def split: option.splits)
  from same_gesture_active [OF g c] obtain c' where "activeCanvas s' = Some c'" "paths c' = paths c"
    by blast
  with a c g show ?thesis
    by (auto simp: anchored_def same_gesture_def)
qed

lemma set_activeCanvas_same_paths:
  assumes "activeCanvas s = Some c" "paths c' = paths c"
  shows "map paths (layers (set_activeCanvas c' s)) = map paths (layers s)"
proof -
  have "(map paths (layers s))[nat (activeLayer s) := paths c'] =
        (map paths (layers s))[nat (activeLayer s) := map paths (layers s) ! nat (activeLayer s)]"
    using assms(2) activeCanvas_paths(2) [OF assms(1)] by simp
  then show ?thesis
    by (simp add: set_activeCanvas_def map_update del: nth_map)
qed

lemma set_activeCanvas_fields [simp]:
  "mode (set_activeCanvas c s) = mode s" "figure (set_activeCanvas c s) = figure s"
  "transform (set_activeCanvas c s) = transform s" "imagedata (set_activeCanvas c s) = imagedata s"
  "isDown (set_activeCanvas c s) = isDown s" "activeLayer (set_activeCanvas c s) = activeLayer s"
  "invoked (set_activeCanvas c s) = invoked s"
  by (simp_all add: set_activeCanvas_def)

lemma paths_paint [simp]: "paths (paint ds c) = paths c"
  by (simp add: paint_def)

lemma p_transform_anchored:
  assumes "activeCanvas s = Some c" "paths c \<noteq> []" "last (paths c) = PointArray ps p"
  shows "\<exists>s'. p_transform x y c s = Returned s' \<and> same_gesture s s' \<and> invoked s' = invoked s"
proof -
  define c' where "c' = (Canvas_transform (measureTextWidth s) (transform s)
       (Array (transform_amounts (transform s) (getOffsetPoint p (Point (Number x) (Number y))) c))
       (c\<lparr>paths := butlast (paths c)\<rparr>))\<lparr>paths := butlast (paths c) @ [PointArray ps p]\<rparr>"
  have r: "p_transform x y c s = Returned (set_activeCanvas c' s)"
    using assms by (simp add: p_transform_def Let_def c'_def)
  have "paths c' = paths c"
    using assms(2,3) by (simp add: c'_def) (metis append_butlast_last_id)
  then have "same_gesture s (set_activeCanvas c' s)"
    using set_activeCanvas_same_paths [OF assms(1)] by (simp add: same_gesture_def)
  with r show ?thesis by simp
qed

lemma p_figure_MOVE_anchored:
  assumes "activeCanvas s = Some c" "paths c \<noteq> []" "last (paths c) = PointArray ps p"
    "imagedata s \<noteq> None"
  shows "\<exists>s'. p_figure x y MOVE c s = Returned s' \<and> same_gesture s s' \<and> invoked s' = invoked s"
proof -
  from assms(4) obtain img where img: "imagedata s = Some img" by blast
  show ?thesis
    using assms(2,3) img
    by (simp add: p_figure_def Let_def same_gesture_def set_activeCanvas_same_paths [OF assms(1)])
qed

lemma pointer_move_anchored:
  assumes "anchored s"
  shows "\<exists>s'. pointer_move xy s = Returned s' \<and> same_gesture s s'"
proof -
  from assms obtain c ps p where c: "activeCanvas s = Some c" "paths c \<noteq> []" "last (paths c) = PointArray ps p"
    by (auto simp: anchored_def split: option.splits path.splits)
  from assms have down: "isDown s" by (simp add: anchored_def)
  from assms consider "mode s = ''transform''" | "mode s = ''figure''" "imagedata s \<noteq> None"
    by (auto simp: anchored_def)
  then show ?thesis
  proof cases
    case 1
    from p_transform_anchored [OF c, of "fst xy" "snd xy"] obtain s1
      where "p_transform (fst xy) (snd xy) c s = Returned s1" "same_gesture s s1" by blast
    then show ?thesis
      using 1 c(1) down
      by (simp add: pointer_move_def at_position_def move_at_def then_do_def same_gesture_def)
  next
    case 2
    from p_figure_MOVE_anchored [OF c 2(2), of "fst xy" "snd xy"] obtain s1
      where "p_figure (fst xy) (snd xy) MOVE c s = Returned s1" "same_gesture s s1" by blast
    then show ?thesis
      using 2 c(1) down
      by (simp add: pointer_move_def at_position_def move_at_def then_do_def same_gesture_def)
  qed
qed

lemma pointer_moves_anchored:
  "anchored s \<Longrightarrow> \<exists>s'. pointer_moves xys s = Returned s' \<and> same_gesture s s'"
proof (induction xys arbitrary: s)
  case Nil
  then show ?case by (simp add: same_gesture_refl)
next
  case (Cons xy xys)
  from pointer_move_anchored [OF Cons.prems] obtain s1
    where s1: "pointer_move xy s = Returned s1" "same_gesture s s1" by blast
  have "anchored s1" using Cons.prems s1(2) by (rule same_gesture_anchored)
  from Cons.IH [OF this] obtain s2 where "pointer_moves xys s1 = Returned s2" "same_gesture s1 s2"
    by blast
  with s1 show ?case
    by (auto simp: then_do_def intro: same_gesture_trans)
qed


lemma activeCanvas_set_activeCanvas:
  "activeCanvas s = Some c \<Longrightarrow> activeCanvas (set_activeCanvas c' s) = Some c'"
  by (auto simp: activeCanvas_def set_activeCanvas_def split: if_splits)

lemma layers_set_activeCanvas:
  "map paths (layers (set_activeCanvas c' s)) = (map paths (layers s))[nat (activeLayer s) := paths c']"
  by (simp add: set_activeCanvas_def map_update)

lemma activeCanvas_fields [simp]:
  "activeCanvas (s\<lparr>isDown := b\<rparr>) = activeCanvas s"
  "activeCanvas (s\<lparr>invoked := i\<rparr>) = activeCanvas s"
  "activeCanvas (s\<lparr>imagedata := d\<rparr>) = activeCanvas s"
  by (simp_all add: activeCanvas_def)

lemma pointer_down_anchored:
  assumes "mode s = ''transform'' \<or> mode s = ''figure'' \<and> 0 < canvas_width c \<and> 0 < canvas_height c"
    and "activeCanvas s = Some c"
  shows "\<exists>s1. pointer_down d s = Returned s1 \<and> anchored s1 \<and> mode s1 = mode s \<and> figure s1 = figure s
           \<and> activeLayer s1 = activeLayer s
           \<and> map paths (layers s1) =
               (map paths (layers s))[nat (activeLayer s) :=
                  paths c @ [PointArray [] (Point (Number (fst d)) (Number (snd d)))]]"
  using assms
  by (auto simp: pointer_down_def at_position_def start_at_def then_do_def p_figure_def Let_def
      anchored_def activeCanvas_set_activeCanvas layers_set_activeCanvas)

lemma pointer_up_transform:
  assumes "mode s = ''transform''" "isDown s" "activeCanvas s = Some c"
  shows "\<exists>s'. pointer_up u s = Returned s' \<and> \<not> isDown s' \<and> activeLayer s' = activeLayer s
           \<and> map paths (layers s') = (map paths (layers s))[nat (activeLayer s) := butlast (paths c)]"
  using assms
  by (simp add: pointer_up_def at_position_def end_at_def then_do_def Let_def layers_set_activeCanvas)

lemma pointer_up_figure:
  assumes "mode s = ''figure''" "isDown s" "activeCanvas s = Some c" "imagedata s \<noteq> None"
    "paths c = ps @ [PointArray qs anchor]"
    "figure s = ''rectangle'' \<or> figure s = ''circle'' \<or> figure s = ''line''"
  shows "\<exists>s'. pointer_up u s = Returned s' \<and> \<not> isDown s' \<and> imagedata s' = None
           \<and> activeLayer s' = activeLayer s
           \<and> map paths (layers s') =
               (map paths (layers s))[nat (activeLayer s) := ps @ [committed_shape (figure s) anchor u]]"
proof -
  from assms(4) obtain img where img: "imagedata s = Some img" by blast
  show ?thesis
    using assms(1,2,3,5,6) img
    by (auto simp: pointer_up_def at_position_def end_at_def then_do_def Let_def p_figure_def
        layers_set_activeCanvas committed_shape_def)
qed


lemma layers_restored:
  assumes "activeCanvas s = Some c"
  shows "(map paths (layers s))[nat (activeLayer s) := paths c] = map paths (layers s)"
  using activeCanvas_paths(2) [OF assms] by (metis list_update_id)

lemma gesture_before_up:
  assumes "mode s = ''transform'' \<or> mode s = ''figure'' \<and> 0 < canvas_width c \<and> 0 < canvas_height c"
    and "activeCanvas s = Some c"
  shows "\<exists>s2 c2. then_do (pointer_down d s) (pointer_moves ms) = Returned s2 \<and> anchored s2
           \<and> mode s2 = mode s \<and> figure s2 = figure s \<and> activeLayer s2 = activeLayer s
           \<and> activeCanvas s2 = Some c2
           \<and> paths c2 = paths c @ [PointArray [] (Point (Number (fst d)) (Number (snd d)))]
           \<and> map paths (layers s2) =
               (map paths (layers s))[nat (activeLayer s) :=
                  paths c @ [PointArray [] (Point (Number (fst d)) (Number (snd d)))]]"
proof -
  let ?anchor = "PointArray [] (Point (Number (fst d)) (Number (snd d)))"
  from pointer_down_anchored [OF assms, of d] obtain s1 where
    s1: "pointer_down d s = Returned s1" "anchored s1" "mode s1 = mode s" "figure s1 = figure s"
      "activeLayer s1 = activeLayer s"
      "map paths (layers s1) = (map paths (layers s))[nat (activeLayer s) := paths c @ [?anchor]]"
    by blast
  from pointer_moves_anchored [OF s1(2), of ms] obtain s2 where
    s2: "pointer_moves ms s1 = Returned s2" "same_gesture s1 s2"
    by blast
  have a2: "anchored s2" using s1(2) s2(2) by (rule same_gesture_anchored)
  then obtain c2 where c2: "activeCanvas s2 = Some c2"
    by (auto simp: anchored_def split: option.splits)
  have eq: "map paths (layers s2) = (map paths (layers s))[nat (activeLayer s) := paths c @ [?anchor]]"
    using s2(2) s1(6) by (simp add: same_gesture_def)
  have act: "activeLayer s2 = activeLayer s"
    using s2(2) s1(5) by (simp add: same_gesture_def)
  have "paths c2 = map paths (layers s2) ! nat (activeLayer s2)"
    using activeCanvas_paths(2) [OF c2] by simp
  also have "\<dots> = paths c @ [?anchor]"
    using activeCanvas_paths(1) [OF assms(2)] by (simp add: eq act)
  finally have p2: "paths c2 = paths c @ [?anchor]" .
  have "then_do (pointer_down d s) (pointer_moves ms) = Returned s2"
    using s1(1) s2(1) by (simp add: then_do_def)
  moreover have "mode s2 = mode s" "figure s2 = figure s"
    using s2(2) s1(3,4) by (simp_all add: same_gesture_def)
  ultimately show ?thesis
    using a2 act c2 p2 eq by blast
qed

text \<open>
  A listener on an event for which \<open>getOffsetX\<close> and \<open>getOffsetY\<close> return \<open>x\<close> and \<open>y\<close>
  does what the gesture at the position \<open>(x, y)\<close> does.
\<close>

lemma listeners_at_position:
  assumes "activeCanvas s = Some c" "getOffsetX cont c ev = Some x" "getOffsetY cont c ev = Some y"
  shows "on_start cont ev s = pointer_down (x, y) s"
    and "on_move cont ev s = pointer_move (x, y) s"
    and "on_end cont ev s = pointer_up (x, y) s"
  using assms
  by (simp_all add: on_start_def on_move_def on_end_def with_coordinates_def pointer_down_def
      pointer_move_def pointer_up_def at_position_def)

text \<open>
  A gesture in the transform mode at positions that the listeners have computed,
  whatever the positions and the number of moves: after the pointer-down and the
  moves the active layer's list is the list from before the gesture with the anchor
  entry (the array of the one Point of the pointer-down) at its end, and no other
  layer's list has changed; after the pointer-up every layer's list is as it was
  before the pointer-down.
\<close>

lemma transform_gesture_at_positions:
  assumes "mode s = ''transform''" "activeCanvas s = Some c"
  shows "(\<exists>s1. then_do (pointer_down d s) (pointer_moves ms) = Returned s1
           \<and> map paths (layers s1) =
               (map paths (layers s))[nat (activeLayer s) :=
                  paths c @ [PointArray [] (Point (Number (fst d)) (Number (snd d)))]])
    \<and> (\<exists>s'. gesture d ms u s = Returned s' \<and> map paths (layers s') = map paths (layers s)
           \<and> \<not> isDown s')"
proof -
  from assms(1)
  have m: "mode s = ''transform'' \<or> mode s = ''figure'' \<and> 0 < canvas_width c \<and> 0 < canvas_height c"
    by simp
  from gesture_before_up [OF m assms(2), of d ms] obtain s2 c2 where
    s2: "then_do (pointer_down d s) (pointer_moves ms) = Returned s2" "anchored s2" "mode s2 = mode s"
      "activeLayer s2 = activeLayer s" "activeCanvas s2 = Some c2"
      "paths c2 = paths c @ [PointArray [] (Point (Number (fst d)) (Number (snd d)))]"
      "map paths (layers s2) =
         (map paths (layers s))[nat (activeLayer s) :=
            paths c @ [PointArray [] (Point (Number (fst d)) (Number (snd d)))]]"
    by blast
  have "isDown s2" using s2(2) by (simp add: anchored_def)
  from pointer_up_transform [OF _ this s2(5), of u] s2(3) assms(1) obtain s3 where
    s3: "pointer_up u s2 = Returned s3" "\<not> isDown s3"
      "map paths (layers s3) = (map paths (layers s2))[nat (activeLayer s2) := butlast (paths c2)]"
    by auto
  have "map paths (layers s3) = map paths (layers s)"
    using s3(3) s2(4,6,7) layers_restored [OF assms(2)] by simp
  moreover have "gesture d ms u s = Returned s3"
    using s2(1) s3(1) by (simp add: gesture_def then_do_def)
  ultimately show ?thesis
    using s2(1,7) s3(2) by blast
qed

lemma located_offsets:
  "located ev \<Longrightarrow> \<exists>x y. getOffsetX cont c ev = Some x \<and> getOffsetY cont c ev = Some y"
  by (cases ev) (simp_all add: located_def getOffsetX_def getOffsetY_def Let_def)

lemma on_moves_located:
  assumes "anchored s" "\<forall>ev\<in>set evs. located ev"
  shows "\<exists>ms. pointer_moves ms s = Returned (on_moves cont evs s) \<and> same_gesture s (on_moves cont evs s)"
  using assms
proof (induction evs arbitrary: s)
  case Nil
  have "pointer_moves [] s = Returned (on_moves cont [] s)"
    by simp
  then show ?case
    using same_gesture_refl [of s] by (metis on_moves.simps(1))
next
  case (Cons ev evs)
  from Cons.prems(1) obtain c where c: "activeCanvas s = Some c"
    by (auto simp: anchored_def split: option.splits)
  from Cons.prems(2) have "located ev" by simp
  from located_offsets [OF this, of cont c] obtain x y where
    xy: "getOffsetX cont c ev = Some x" "getOffsetY cont c ev = Some y" by blast
  from pointer_move_anchored [OF Cons.prems(1), of "(x, y)"] obtain s1 where
    s1: "pointer_move (x, y) s = Returned s1" "same_gesture s s1" by blast
  have ev: "on_move cont ev s = Returned s1"
    using listeners_at_position(2) [OF c xy] s1(1) by simp
  have "anchored s1" using Cons.prems(1) s1(2) by (rule same_gesture_anchored)
  moreover have "\<forall>ev\<in>set evs. located ev" using Cons.prems(2) by simp
  ultimately obtain ms where
    ms: "pointer_moves ms s1 = Returned (on_moves cont evs s1)" "same_gesture s1 (on_moves cont evs s1)"
    using Cons.IH by blast
  have "pointer_moves ((x, y) # ms) s = Returned (on_moves cont (ev # evs) s)"
    using s1(1) ms(1) ev by (simp add: then_do_def)
  moreover have "same_gesture s (on_moves cont (ev # evs) s)"
    using same_gesture_trans [OF s1(2) ms(2)] ev by simp
  ultimately show ?case by blast
qed

lemma on_gesture_located:
  assumes "mode s = ''transform'' \<or> mode s = ''figure'' \<and> 0 < canvas_width c \<and> 0 < canvas_height c"
    and "activeCanvas s = Some c"
    and "located down" "\<forall>ev\<in>set moves. located ev" "located up"
  shows "\<exists>d ms u. on_gesture cont down moves up s = gesture d ms u s
           \<and> getOffsetX cont c down = Some (fst d) \<and> getOffsetY cont c down = Some (snd d)"
proof -
  from located_offsets [OF assms(3), of cont c] obtain x y where
    xy: "getOffsetX cont c down = Some x" "getOffsetY cont c down = Some y" by blast
  from pointer_down_anchored [OF assms(1,2), of "(x, y)"] obtain s1 where
    s1: "pointer_down (x, y) s = Returned s1" "anchored s1" by blast
  have start: "on_start cont down s = Returned s1"
    using listeners_at_position(1) [OF assms(2) xy] s1(1) by simp
  from on_moves_located [OF s1(2) assms(4), of cont] obtain ms where
    ms: "pointer_moves ms s1 = Returned (on_moves cont moves s1)" "same_gesture s1 (on_moves cont moves s1)"
    by blast
  have "anchored (on_moves cont moves s1)" using s1(2) ms(2) by (rule same_gesture_anchored)
  then obtain c2 where c2: "activeCanvas (on_moves cont moves s1) = Some c2"
    by (auto simp: anchored_def split: option.splits)
  from located_offsets [OF assms(5), of cont c2] obtain x' y' where
    xy': "getOffsetX cont c2 up = Some x'" "getOffsetY cont c2 up = Some y'" by blast
  have "on_gesture cont down moves up s = pointer_up (x', y') (on_moves cont moves s1)"
    using listeners_at_position(3) [OF c2 xy'] start by (simp add: on_gesture_def)
  also have "\<dots> = gesture (x, y) ms (x', y') s"
    using s1(1) ms(1) by (simp add: gesture_def then_do_def)
  finally show ?thesis
    using xy by auto
qed

lemmas scenario_defs = new_ArtCanvas_def new_Canvas_def Canvas_clear_def Let_def gesture_def
  pointer_down_def pointer_move_def pointer_up_def at_position_def start_at_def move_at_def end_at_def
  then_do_def activeCanvas_def set_activeCanvas_def p_figure_def getOffsetPoint_def Point_def
  Rectangle_def num_sub_def paint_def num_ge_def num_gt_def to_nat_def setFigure_def setMode_def
  toLowerCase_def toLower_char_def drawText_def trunc_def scale_def on_active_def Canvas_transform_def
  Canvas_transform_set_def wrap_amounts_def store_amounts_def getCenterPoint_def set_matrix_def
  ctx_transform_def ctx_setTransform_def ctx_save_def ctx_restore_def Canvas_draw_def
  initial_transforms_def identity_matrix_def plain_notation_def mantissa.simps

lemmas listener_defs = on_start_def on_move_def on_end_def with_coordinates_def getOffsetX_def
  getOffsetY_def truthy_def clamp_offset_def p_transform_def transform_amounts_def

text \<open>
  So a gesture in the transform mode whose events all have their coordinates leaves
  every layer's list as it was before the pointer-down.
\<close>

lemma transform_gesture_of_located_events:
  assumes "mode s = ''transform''" "activeCanvas s = Some c"
    and "located down" "\<forall>ev\<in>set moves. located ev" "located up"
  shows "\<exists>s'. on_gesture cont down moves up s = Returned s' \<and> map paths (layers s') = map paths (layers s)
           \<and> \<not> isDown s'"
proof -
  from assms(1)
  have m: "mode s = ''transform'' \<or> mode s = ''figure'' \<and> 0 < canvas_width c \<and> 0 < canvas_height c"
    by simp
  from on_gesture_located [OF m assms(2-5), of cont] obtain d ms u where
    "on_gesture cont down moves up s = gesture d ms u s" by blast
  then show ?thesis
    using transform_gesture_at_positions [OF assms(1,2), of d ms u] by simp
qed

text \<open>
  C6 says that after every gesture in the transform mode the list is the list from
  before the pointer-down. The listener of the pointer-up computes the coordinates of
  its event before it takes the anchor entry off the list, and \<open>getOffsetX\<close> throws for
  a mouse event with \<open>pageX\<close> 0 (\<open>getOffsetY\<close> with \<open>pageY\<close> 0): on a new ArtCanvas of
  300 by 300 in the transform mode, after a pointer-down at \<open>(10, 10)\<close> and a move to
  \<open>(30, 30)\<close>, the pointer-up on the left edge of the page, at \<open>(0, 40)\<close>, throws; the
  gesture stays on and the anchor entry stays on the list, which was empty before.
\<close>

theorem transform_gesture_mouseup_on_page_edge:
  "map paths (layers ((new_ArtCanvas fixed_pitch None (Number (Fin 300)) (Number (Fin 300)))
      \<lparr>mode := ''transform''\<rparr>)) = [[]]
   \<and> on_end page (MouseEvent (Fin 0) (Fin 40))
        (state_of (on_move page (MouseEvent (Fin 30) (Fin 30))
           (state_of (on_start page (MouseEvent (Fin 10) (Fin 10))
              ((new_ArtCanvas fixed_pitch None (Number (Fin 300)) (Number (Fin 300)))
                 \<lparr>mode := ''transform''\<rparr>)))))
       = TypeError
        (state_of (on_move page (MouseEvent (Fin 30) (Fin 30))
           (state_of (on_start page (MouseEvent (Fin 10) (Fin 10))
              ((new_ArtCanvas fixed_pitch None (Number (Fin 300)) (Number (Fin 300)))
                 \<lparr>mode := ''transform''\<rparr>)))))
   \<and> isDown
        (state_of (on_move page (MouseEvent (Fin 30) (Fin 30))
           (state_of (on_start page (MouseEvent (Fin 10) (Fin 10))
              ((new_ArtCanvas fixed_pitch None (Number (Fin 300)) (Number (Fin 300)))
                 \<lparr>mode := ''transform''\<rparr>)))))
   \<and> map paths (layers
        (state_of (on_move page (MouseEvent (Fin 30) (Fin 30))
           (state_of (on_start page (MouseEvent (Fin 10) (Fin 10))
              ((new_ArtCanvas fixed_pitch None (Number (Fin 300)) (Number (Fin 300)))
                 \<lparr>mode := ''transform''\<rparr>))))))
       = [[PointArray [] (MkPoint (Fin 10) (Fin 10))]]"
  by (simp add: page_def listener_defs scenario_defs)

lemma committed_shape_is_shape: "committed_shape fig anchor up \<noteq> PointArray ps q"
  by (simp add: committed_shape_def)

lemma scale_redraws:
  assumes "activeCanvas t = Some c1"
  shows "\<exists>t' c2. scale (Number (Fin a)) (Number (Fin b)) t = Returned t' \<and> activeCanvas t' = Some c2
           \<and> scale_x (transforms c2) = Fin a \<and> scale_y (transforms c2) = Fin b
           \<and> paths c2 = paths c1 \<and> map paths (layers t') = map paths (layers t)
           \<and> surface c2 =
               map (\<lambda>d. (ctm (Canvas_transform_set (measureTextWidth t) ''scale''
                                (Array [Number (Fin a), Number (Fin b)]) c1), d))
                 (concat (map draw_path (paths c1)))"
  using assms
  by (simp add: scale_def on_active_def activeCanvas_set_activeCanvas set_activeCanvas_same_paths
      transforms_Canvas_transform surface_Canvas_transform store_amounts_def wrap_amounts_def Let_def)

text \<open>
  A gesture in the figure mode at positions that the listeners have computed, on a
  layer with a width and a height and with one of the three kinds of figure selected:
  afterwards the active layer's list is the list from before the gesture with exactly
  one new entry at its end, the shape of the selected kind from the position of the
  pointer-down to that of the pointer-up; no other layer's list has changed, the
  pointer is up and the snapshot is dropped.
\<close>

lemma figure_gesture_at_positions:
  assumes "mode s = ''figure''"
    and "figure s = ''rectangle'' \<or> figure s = ''circle'' \<or> figure s = ''line''"
    and "activeCanvas s = Some c"
    and "0 < canvas_width c" "0 < canvas_height c"
  shows "\<exists>s'. gesture d ms u s = Returned s' \<and> \<not> isDown s' \<and> imagedata s' = None
           \<and> activeLayer s' = activeLayer s
           \<and> map paths (layers s') =
               (map paths (layers s))[nat (activeLayer s) :=
                  paths c @ [committed_shape (figure s) (Point (Number (fst d)) (Number (snd d))) u]]"
proof -
  from assms(1,4,5)
  have m: "mode s = ''transform'' \<or> mode s = ''figure'' \<and> 0 < canvas_width c \<and> 0 < canvas_height c"
    by simp
  from gesture_before_up [OF m assms(3), of d ms] obtain s2 c2 where
    s2: "then_do (pointer_down d s) (pointer_moves ms) = Returned s2" "anchored s2" "mode s2 = mode s"
      "figure s2 = figure s" "activeLayer s2 = activeLayer s" "activeCanvas s2 = Some c2"
      "paths c2 = paths c @ [PointArray [] (Point (Number (fst d)) (Number (snd d)))]"
      "map paths (layers s2) =
         (map paths (layers s))[nat (activeLayer s) :=
            paths c @ [PointArray [] (Point (Number (fst d)) (Number (snd d)))]]"
    by blast
  have down: "isDown s2" and img: "imagedata s2 \<noteq> None"
    using s2(2,3) assms(1) by (auto simp: anchored_def)
  have m2: "mode s2 = ''figure''" and f2: "figure s2 = ''rectangle'' \<or> figure s2 = ''circle'' \<or> figure s2 = ''line''"
    using s2(3,4) assms(1,2) by simp_all
  from pointer_up_figure [OF m2 down s2(6) img s2(7) f2, of u] obtain s3 where
    s3: "pointer_up u s2 = Returned s3" "\<not> isDown s3" "imagedata s3 = None"
      "activeLayer s3 = activeLayer s2"
      "map paths (layers s3) =
         (map paths (layers s2))[nat (activeLayer s2) :=
            paths c @ [committed_shape (figure s2) (Point (Number (fst d)) (Number (snd d))) u]]"
    by blast
  have "gesture d ms u s = Returned s3"
    using s2(1) s3(1) by (simp add: gesture_def then_do_def)
  moreover have "map paths (layers s3) =
      (map paths (layers s))[nat (activeLayer s) :=
         paths c @ [committed_shape (figure s) (Point (Number (fst d)) (Number (snd d))) u]]"
    using s3(5) s2(4,5,8) by simp
  ultimately show ?thesis
    using s3(2,3,4) s2(5) by auto
qed

text \<open>
  So a gesture in the figure mode whose events all have their coordinates, on a layer
  with a width and a height, adds exactly one entry, a shape, to the list of the active
  layer. The shape starts at the position that \<open>getOffsetX\<close> and \<open>getOffsetY\<close> give
  for the pointer-down.
\<close>

lemma figure_gesture_of_located_events:
  assumes "mode s = ''figure''"
    and "figure s = ''rectangle'' \<or> figure s = ''circle'' \<or> figure s = ''line''"
    and "activeCanvas s = Some c"
    and "0 < canvas_width c" "0 < canvas_height c"
    and "located down" "\<forall>ev\<in>set moves. located ev" "located up"
  shows "\<exists>s' shape. on_gesture cont down moves up s = Returned s' \<and> \<not> isDown s' \<and> imagedata s' = None
           \<and> activeLayer s' = activeLayer s
           \<and> map paths (layers s') = (map paths (layers s))[nat (activeLayer s) := paths c @ [shape]]
           \<and> (\<forall>ps q. shape \<noteq> PointArray ps q)"
proof -
  from assms(1,4,5)
  have m: "mode s = ''transform'' \<or> mode s = ''figure'' \<and> 0 < canvas_width c \<and> 0 < canvas_height c"
    by simp
  from on_gesture_located [OF m assms(3,6-8), of cont] obtain d ms u where
    "on_gesture cont down moves up s = gesture d ms u s" by blast
  then show ?thesis
    using figure_gesture_at_positions [OF assms(1-5), of d ms u] committed_shape_is_shape
    by metis
qed

text \<open>
  For a rectangle between finite positions the stored shape has the pointer-down's
  \<open>x\<close> as top and \<open>y\<close> as left (the gesture passes them in this order), and as width
  and height the offsets to the pointer-up, or 0 where an offset is negative.
\<close>

lemma committed_rectangle:
  "committed_shape ''rectangle'' (Point (Number (Fin x0)) (Number (Fin y0))) (Fin x1, Fin y1) =
     Rect (MkRectangle (Fin x0) (Fin y0) (Fin (if x0 \<le> x1 then x1 - x0 else 0))
             (Fin (if y0 \<le> y1 then y1 - y0 else 0)))"
  by (simp add: committed_shape_def Point_def Let_def getOffsetPoint_def num_sub_def Rectangle_def
      num_ge_def)

text \<open>
  The scenario of C7, with events inside the page: on a new ArtCanvas of 300 by 300 set
  to the figure mode (the figure is the rectangle), down at \<open>(10, 10)\<close>, move to
  \<open>(60, 40)\<close>, up at \<open>(60, 40)\<close> leaves one entry, the Rectangle with top 10, left 10,
  width 50 and height 30; then \<open>scale(2, 1)\<close> stores the scale \<open>(2, 1)\<close>, keeps the
  list, and leaves on the surface exactly the rectangle drawn with the new matrix.
\<close>

lemma rectangle_scenario:
  "\<exists>s. on_end page (MouseEvent (Fin 60) (Fin 40))
          (state_of (on_move page (MouseEvent (Fin 60) (Fin 40))
             (state_of (on_start page (MouseEvent (Fin 10) (Fin 10))
                (state_of (setMode ''figure''
                   (new_ArtCanvas fixed_pitch None (Number (Fin 300)) (Number (Fin 300))))))))) = Returned s
      \<and> map paths (layers s) = [[Rect (MkRectangle (Fin 10) (Fin 10) (Fin 50) (Fin 30))]]
      \<and> (\<exists>s'. scale (Number (Fin 2)) (Number (Fin 1)) s = Returned s'
            \<and> map paths (layers s') = [[Rect (MkRectangle (Fin 10) (Fin 10) (Fin 50) (Fin 30))]]
            \<and> map transforms (layers s') = [initial_transforms\<lparr>scale_x := Fin 2, scale_y := Fin 1\<rparr>]
            \<and> map surface (layers s') =
                 [[(Matrix 2 0 0 1 0 0, RectPath (Fin 10) (Fin 10) (Fin 50) (Fin 30))]])"
  by (simp add: page_def listener_defs scenario_defs)

text \<open>
  On a layer without width or height the pointer-down of a figure gesture throws in
  \<open>getImageData\<close>: no gesture starts and nothing is stored.
\<close>

lemma figure_gesture_on_empty_canvas:
  "on_start page (MouseEvent (Fin 10) (Fin 10))
     ((new_ArtCanvas fixed_pitch (Some (0, 0)) NonNumeric NonNumeric)\<lparr>mode := ''figure''\<rparr>)
   = IndexSizeError ((new_ArtCanvas fixed_pitch (Some (0, 0)) NonNumeric NonNumeric)\<lparr>mode := ''figure''\<rparr>)"
  by (simp add: page_def listener_defs scenario_defs)

text \<open>
  C7 says that after every gesture in the figure mode the list holds exactly one new
  entry, a shape and never an array of Points. The listener of the pointer-up
  computes the coordinates of its event before it replaces the anchor entry by the
  shape, and \<open>getOffsetY\<close> throws for a mouse event with \<open>pageY\<close> 0 (\<open>getOffsetX\<close> with
  \<open>pageX\<close> 0): on a new ArtCanvas of 300 by 300 in the figure mode with the rectangle
  selected, after a pointer-down at \<open>(10, 10)\<close> and a move to \<open>(60, 40)\<close>, the
  pointer-up on the top edge of the page, at \<open>(60, 0)\<close>, throws; the gesture stays on,
  and the one new entry of the list, which was empty before, is the array of the Point
  \<open>(10, 10)\<close>, not a Rectangle.
\<close>

theorem figure_gesture_mouseup_on_page_edge:
  "map paths (layers ((new_ArtCanvas fixed_pitch None (Number (Fin 300)) (Number (Fin 300)))
      \<lparr>mode := ''figure''\<rparr>)) = [[]]
   \<and> figure ((new_ArtCanvas fixed_pitch None (Number (Fin 300)) (Number (Fin 300)))
      \<lparr>mode := ''figure''\<rparr>) = ''rectangle''
   \<and> on_end page (MouseEvent (Fin 60) (Fin 0))
        (state_of (on_move page (MouseEvent (Fin 60) (Fin 40))
           (state_of (on_start page (MouseEvent (Fin 10) (Fin 10))
              ((new_ArtCanvas fixed_pitch None (Number (Fin 300)) (Number (Fin 300)))
                 \<lparr>mode := ''figure''\<rparr>)))))
       = TypeError
        (state_of (on_move page (MouseEvent (Fin 60) (Fin 40))
           (state_of (on_start page (MouseEvent (Fin 10) (Fin 10))
              ((new_ArtCanvas fixed_pitch None (Number (Fin 300)) (Number (Fin 300)))
                 \<lparr>mode := ''figure''\<rparr>)))))
   \<and> isDown
        (state_of (on_move page (MouseEvent (Fin 60) (Fin 40))
           (state_of (on_start page (MouseEvent (Fin 10) (Fin 10))
              ((new_ArtCanvas fixed_pitch None (Number (Fin 300)) (Number (Fin 300)))
                 \<lparr>mode := ''figure''\<rparr>)))))
   \<and> map paths (layers
        (state_of (on_move page (MouseEvent (Fin 60) (Fin 40))
           (state_of (on_start page (MouseEvent (Fin 10) (Fin 10))
              ((new_ArtCanvas fixed_pitch None (Number (Fin 300)) (Number (Fin 300)))
                 \<lparr>mode := ''figure''\<rparr>))))))
       = [[PointArray [] (MkPoint (Fin 10) (Fin 10))]]"
  by (simp add: page_def listener_defs scenario_defs)

section \<open>The coordinates of a pointer event\<close>

lemma clamp_offset_in_range:
  "\<not> isNaN v \<Longrightarrow> num_ge (clamp_offset v w) (Fin 0) \<and> num_ge (Fin (real w)) (clamp_offset v w)"
  by (cases v) (auto simp: clamp_offset_def num_ge_def num_gt_def Let_def)

text \<open>
  Where \<open>getOffsetX\<close> returns, and the page coordinate it read is a number, the value
  is within \<open>[0, canvas.width]\<close>: this holds for a mouse event whose \<open>pageX\<close> is not 0,
  and for a touch event with a touch point.
\<close>

lemma getOffsetX_mouse_in_range:
  assumes "truthy pageX"
    and "\<not> isNaN (num_add (num_sub pageX (offsetLeft cont)) (scrollLeft cont))"
  shows "\<exists>v. getOffsetX cont c (MouseEvent pageX pageY) = Some v
           \<and> num_ge v (Fin 0) \<and> num_ge (Fin (real (canvas_width c))) v"
  using assms clamp_offset_in_range by (simp add: getOffsetX_def)

lemma getOffsetX_touch_in_range:
  assumes "\<not> isNaN (num_add (num_sub (touch_pageX t) (offsetLeft cont)) (scrollLeft cont))"
  shows "\<exists>v. getOffsetX cont c (TouchEvent (t # ts) cs) = Some v
           \<and> num_ge v (Fin 0) \<and> num_ge (Fin (real (canvas_width c))) v"
  using assms clamp_offset_in_range by (simp add: getOffsetX_def)

text \<open>
  C10 says that for every pointer event \<open>getOffsetX\<close> returns a value in
  \<open>[0, canvas.width]\<close> and \<open>getOffsetY\<close> one in \<open>[0, canvas.height]\<close>. The code does
  not for a mouse event on the left edge of the page, with \<open>pageX\<close> 0 (and for
  \<open>getOffsetY\<close> on the top edge, with \<open>pageY\<close> 0): the test \<open>if (event.pageX)\<close> takes 0
  for a missing coordinate and goes on to \<open>event.touches[0]\<close>, which throws for a mouse
  event. The listener is left at that point. When it is the listener of the pointer-up,
  the gesture stays on and its anchor entry stays on the list: here after a
  pointer-down at \<open>(10, 10)\<close> in the figure mode and a pointer-up at page position
  \<open>(0, 40)\<close>.
\<close>

theorem getOffsetX_throws_on_page_edge:
  "getOffsetX (Container (Fin 0) (Fin 0) (Fin 0) (Fin 0))
      (new_Canvas None (Number (Fin 300)) (Number (Fin 300)) 2) (MouseEvent (Fin 0) (Fin 40)) = None
   \<and> getOffsetY (Container (Fin 0) (Fin 0) (Fin 0) (Fin 0))
      (new_Canvas None (Number (Fin 300)) (Number (Fin 300)) 2) (MouseEvent (Fin 40) (Fin 0)) = None
   \<and> on_end (Container (Fin 0) (Fin 0) (Fin 0) (Fin 0)) (MouseEvent (Fin 0) (Fin 40))
        (state_of (on_start (Container (Fin 0) (Fin 0) (Fin 0) (Fin 0)) (MouseEvent (Fin 10) (Fin 10))
           ((new_ArtCanvas fixed_pitch None (Number (Fin 300)) (Number (Fin 300)))\<lparr>mode := ''figure''\<rparr>)))
       = TypeError
        (state_of (on_start (Container (Fin 0) (Fin 0) (Fin 0) (Fin 0)) (MouseEvent (Fin 10) (Fin 10))
           ((new_ArtCanvas fixed_pitch None (Number (Fin 300)) (Number (Fin 300)))\<lparr>mode := ''figure''\<rparr>)))
   \<and> isDown
        (state_of (on_start (Container (Fin 0) (Fin 0) (Fin 0) (Fin 0)) (MouseEvent (Fin 10) (Fin 10))
           ((new_ArtCanvas fixed_pitch None (Number (Fin 300)) (Number (Fin 300)))\<lparr>mode := ''figure''\<rparr>)))
   \<and> map paths (layers
        (state_of (on_start (Container (Fin 0) (Fin 0) (Fin 0) (Fin 0)) (MouseEvent (Fin 10) (Fin 10))
           ((new_ArtCanvas fixed_pitch None (Number (Fin 300)) (Number (Fin 300)))\<lparr>mode := ''figure''\<rparr>))))
       = [[PointArray [] (MkPoint (Fin 10) (Fin 10))]]"
  by (simp add: getOffsetX_def getOffsetY_def truthy_def on_start_def on_end_def with_coordinates_def
      start_at_def then_do_def p_figure_def clamp_offset_def num_sub_def Point_def
      new_ArtCanvas_def new_Canvas_def Canvas_clear_def Let_def activeCanvas_def set_activeCanvas_def
      num_gt_def to_nat_def trunc_def plain_notation_def)

end
